theory Spec2Isabelle
  imports Complex_Main "HOL-Library.AList"
begin

section \<open>JavaScript values\<close>

text \<open>
  The pipeline of \<^verbatim>\<open>src/utils/deduplication.js\<close> works on loosely typed records, so the
  embedding keeps JavaScript's dynamic values. A number is an IEEE double, idealised as a
  real, with the three values that are not reals kept apart. An array or a nested object
  occurring as a field value is one constructor that carries the string its
  \<^verbatim>\<open>toString()\<close> yields: the code under study observes nothing else of it (it is truthy,
  it is not a string, and it has none of the string methods).

  Text is ASCII: a string is a list of characters, the case mappings act on the letters
  a to z, and white space is the ASCII white space that \<^verbatim>\<open>trim\<close> removes.
\<close>

datatype jsnum = Fin real | PosInf | NegInf | NaN

datatype jsval =
    JUndefined
  | JNull
  | JBool bool
  | JNum jsnum
  | JStr string
  | JObj string

text \<open>
  An object is the list of its own properties, in insertion order. Properties inherited
  from the prototype, and property names that are array indices, which the language
  enumerates first, are outside the model.
\<close>

type_synonym jsobj = "(string \<times> jsval) list"

datatype js_error = TypeError | Failure string

text \<open>
  Built-ins of the runtime that the repository calls and does not define: the href of
  \<^verbatim>\<open>new URL(s)\<close> (\<open>None\<close> when the constructor throws), the string of a finite number
  and the number of a string. They are parameters of the model.
\<close>

record runtime =
  URL_href :: "string \<Rightarrow> string option"
  NumberToString :: "real \<Rightarrow> string"
  StringToNumber :: "string \<Rightarrow> jsnum"

definition truthy :: "jsval \<Rightarrow> bool" where
  "truthy v =
     (case v of
        JUndefined \<Rightarrow> False
      | JNull \<Rightarrow> False
      | JBool b \<Rightarrow> b
      | JNum n \<Rightarrow> n \<noteq> NaN \<and> n \<noteq> Fin 0
      | JStr s \<Rightarrow> s \<noteq> []
      | JObj _ \<Rightarrow> True)"

definition js_or :: "jsval \<Rightarrow> jsval \<Rightarrow> jsval" where
  \<comment> \<open>\<^verbatim>\<open>a || b\<close>\<close>
  "js_or a b = (if truthy a then a else b)"

definition getProp :: "jsobj \<Rightarrow> string \<Rightarrow> jsval" where
  \<comment> \<open>\<^verbatim>\<open>record.name\<close>: a missing property reads as undefined\<close>
  "getProp obj k = (case map_of obj k of None \<Rightarrow> JUndefined | Some v \<Rightarrow> v)"

definition ToString :: "runtime \<Rightarrow> jsval \<Rightarrow> string" where
  "ToString rt v =
     (case v of
        JUndefined \<Rightarrow> ''undefined''
      | JNull \<Rightarrow> ''null''
      | JBool b \<Rightarrow> (if b then ''true'' else ''false'')
      | JNum (Fin x) \<Rightarrow> NumberToString rt x
      | JNum PosInf \<Rightarrow> ''Infinity''
      | JNum NegInf \<Rightarrow> ''-Infinity''
      | JNum NaN \<Rightarrow> ''NaN''
      | JStr s \<Rightarrow> s
      | JObj s \<Rightarrow> s)"

definition ToNumber :: "runtime \<Rightarrow> jsval \<Rightarrow> jsnum" where
  "ToNumber rt v =
     (case v of
        JUndefined \<Rightarrow> NaN
      | JNull \<Rightarrow> Fin 0
      | JBool b \<Rightarrow> (if b then Fin 1 else Fin 0)
      | JNum n \<Rightarrow> n
      | JStr s \<Rightarrow> StringToNumber rt s
      | JObj s \<Rightarrow> StringToNumber rt s)"

subsection \<open>String methods\<close>

definition isDigit :: "char \<Rightarrow> bool" where
  "isDigit c = (c \<in> set ''0123456789'')"

definition isSpace :: "char \<Rightarrow> bool" where
  "isSpace c = (c \<in> set [CHR '' '', CHR 0x09, CHR 0x0A, CHR 0x0B, CHR 0x0C, CHR 0x0D])"

definition trim :: "string \<Rightarrow> string" where
  "trim s = rev (dropWhile isSpace (rev (dropWhile isSpace s)))"

definition lowers :: string where
  "lowers = ''abcdefghijklmnopqrstuvwxyz''"

definition uppers :: string where
  "uppers = ''ABCDEFGHIJKLMNOPQRSTUVWXYZ''"

definition upperChar :: "char \<Rightarrow> char" where
  "upperChar c = (case map_of (zip lowers uppers) c of None \<Rightarrow> c | Some u \<Rightarrow> u)"

definition lowerChar :: "char \<Rightarrow> char" where
  "lowerChar c = (case map_of (zip uppers lowers) c of None \<Rightarrow> c | Some l \<Rightarrow> l)"

definition toUpperCase :: "string \<Rightarrow> string" where
  "toUpperCase s = map upperChar s"

definition toLowerCase :: "string \<Rightarrow> string" where
  "toLowerCase s = map lowerChar s"

definition startsWith :: "string \<Rightarrow> string \<Rightarrow> bool" where
  \<comment> \<open>\<^verbatim>\<open>s.startsWith(p)\<close>\<close>
  "startsWith s p = (take (length p) s = p)"

section \<open>Field normalizers\<close>

text \<open>
  \<^verbatim>\<open>normalizePhone(phone)\<close>. A falsy argument gives null. Any other argument that is not a
  string has no \<^verbatim>\<open>replace\<close> method, and the call throws a TypeError that nothing in the
  function catches.
\<close>

definition normalizePhone :: "jsval \<Rightarrow> js_error + jsval" where
  "normalizePhone phone =
     (if \<not> truthy phone then Inr JNull
      else case phone of
        JStr s \<Rightarrow>
          (let digits = filter isDigit s in
           if length digits = 10 then Inr (JStr (''+1'' @ digits))
           else if length digits = 11 \<and> startsWith digits ''1'' then Inr (JStr (''+'' @ digits))
           else if startsWith s ''+'' then Inr phone
           else Inr (JStr (''+'' @ digits)))
      | _ \<Rightarrow> Inl TypeError)"

definition stripSlash :: "string \<Rightarrow> string" where
  \<comment> \<open>\<^verbatim>\<open>.replace(/\/$/, '')\<close>\<close>
  "stripSlash h = (if h \<noteq> [] \<and> last h = CHR ''/'' then butlast h else h)"

definition stripWww :: "string \<Rightarrow> string" where
  \<comment> \<open>\<^verbatim>\<open>.replace(/^https?:\/\/www\./, 'https://')\<close>\<close>
  "stripWww h =
     (if startsWith h ''https://www.'' then ''https://'' @ drop 12 h
      else if startsWith h ''http://www.'' then ''https://'' @ drop 11 h
      else h)"

text \<open>
  \<^verbatim>\<open>normalizeUrl(url)\<close>. The body after the falsy test is inside \<^verbatim>\<open>try\<close>; the handler
  returns the variable \<^verbatim>\<open>url\<close>, which by then holds the prefixed string when the prefix
  was added. A truthy argument that is not a string fails at \<^verbatim>\<open>url.startsWith\<close>, before the
  assignment, and is returned as it came.
\<close>

definition normalizeUrl :: "runtime \<Rightarrow> jsval \<Rightarrow> jsval" where
  "normalizeUrl rt url =
     (if \<not> truthy url then JNull
      else case url of
        JStr s \<Rightarrow>
          (let u = (if \<not> startsWith s ''http://'' \<and> \<not> startsWith s ''https://''
                    then ''https://'' @ s else s) in
           case URL_href rt u of
             None \<Rightarrow> JStr u
           | Some href \<Rightarrow> JStr (stripWww (stripSlash href)))
      | _ \<Rightarrow> url)"

section \<open>Record normalizer\<close>

definition optTrim :: "jsval \<Rightarrow> js_error + jsval" where
  \<comment> \<open>\<^verbatim>\<open>v?.trim()\<close>: short-circuits on null and undefined only\<close>
  "optTrim v =
     (case v of
        JUndefined \<Rightarrow> Inr JUndefined
      | JNull \<Rightarrow> Inr JUndefined
      | JStr s \<Rightarrow> Inr (JStr (trim s))
      | _ \<Rightarrow> Inl TypeError)"

definition mapStr :: "(string \<Rightarrow> string) \<Rightarrow> jsval \<Rightarrow> jsval" where
  \<comment> \<open>\<^verbatim>\<open>?.toUpperCase()\<close> and \<^verbatim>\<open>?.toLowerCase()\<close> after \<^verbatim>\<open>?.trim()\<close>, whose value is a
      string or the undefined of the short-circuited chain\<close>
  "mapStr f v = (case v of JStr s \<Rightarrow> JStr (f s) | _ \<Rightarrow> v)"

definition thenE :: "js_error + 'a \<Rightarrow> ('a \<Rightarrow> 'b) \<Rightarrow> js_error + 'b" where
  "thenE m f = (case m of Inl e \<Rightarrow> Inl e | Inr x \<Rightarrow> Inr (f x))"

fun literal :: "(string \<times> (js_error + jsval)) list \<Rightarrow> js_error + jsobj" where
  \<comment> \<open>an object literal: the property values are evaluated in order and the first
      exception leaves the literal\<close>
  "literal [] = Inr []"
| "literal ((k, m) # rest) =
     (case m of
        Inl e \<Rightarrow> Inl e
      | Inr v \<Rightarrow> (case literal rest of Inl e \<Rightarrow> Inl e | Inr obj \<Rightarrow> Inr ((k, v) # obj)))"

definition isNumber :: "jsval \<Rightarrow> bool" where
  \<comment> \<open>\<^verbatim>\<open>typeof v === 'number'\<close>\<close>
  "isNumber v = (case v of JNum _ \<Rightarrow> True | _ \<Rightarrow> False)"

definition normalizeRecord :: "runtime \<Rightarrow> jsobj \<Rightarrow> js_error + jsobj" where
  "normalizeRecord rt record =
     literal
       [(''business_name'', thenE (optTrim (getProp record ''business_name'')) (\<lambda>t. js_or t JNull)),
        (''category'', thenE (optTrim (getProp record ''category'')) (\<lambda>t. js_or t JNull)),
        (''street'', thenE (optTrim (getProp record ''street'')) (\<lambda>t. js_or t JNull)),
        (''city'', thenE (optTrim (getProp record ''city'')) (\<lambda>t. js_or t JNull)),
        (''state'', thenE (optTrim (getProp record ''state''))
                      (\<lambda>t. js_or (mapStr toUpperCase t) JNull)),
        (''postal_code'', thenE (optTrim (getProp record ''postal_code'')) (\<lambda>t. js_or t JNull)),
        (''country'', thenE (optTrim (getProp record ''country''))
                        (\<lambda>t. js_or (mapStr toUpperCase t) (JStr ''US''))),
        (''phone'', normalizePhone (getProp record ''phone'')),
        (''email'', thenE (optTrim (getProp record ''email''))
                      (\<lambda>t. js_or (mapStr toLowerCase t) JNull)),
        (''website'', Inr (normalizeUrl rt (getProp record ''website''))),
        (''source_url'', thenE (optTrim (getProp record ''source_url'')) (\<lambda>t. js_or t JNull)),
        (''confidence'', Inr (if isNumber (getProp record ''confidence'')
                              then getProp record ''confidence'' else JNum (Fin 0.5))),
        (''notes'', thenE (optTrim (getProp record ''notes'')) (\<lambda>t. js_or t JNull))]"

definition canonical_fields :: "string list" where
  "canonical_fields =
     [''business_name'', ''category'', ''street'', ''city'', ''state'', ''postal_code'',
      ''country'', ''phone'', ''email'', ''website'', ''source_url'', ''confidence'', ''notes'']"

section \<open>Deduplication key\<close>

definition callLower :: "jsval \<Rightarrow> js_error + jsval" where
  \<comment> \<open>\<^verbatim>\<open>v.toLowerCase()\<close> on a truthy value: only a string has the method\<close>
  "callLower v = (case v of JStr s \<Rightarrow> Inr (JStr (toLowerCase s)) | _ \<Rightarrow> Inl TypeError)"

definition optLower :: "jsval \<Rightarrow> js_error + jsval" where
  \<comment> \<open>\<^verbatim>\<open>v?.toLowerCase()\<close>\<close>
  "optLower v =
     (case v of
        JUndefined \<Rightarrow> Inr JUndefined
      | JNull \<Rightarrow> Inr JUndefined
      | JStr s \<Rightarrow> Inr (JStr (toLowerCase s))
      | _ \<Rightarrow> Inl TypeError)"

text \<open>
  \<^verbatim>\<open>getDeduplicationKey(record)\<close>. The last tier reads the clock and the random generator;
  the two numbers read are the argument \<open>e\<close>.
\<close>

definition getDeduplicationKey :: "runtime \<Rightarrow> real \<times> real \<Rightarrow> jsobj \<Rightarrow> js_error + string" where
  "getDeduplicationKey rt e record =
     (let website = getProp record ''website'';
          business_name = getProp record ''business_name'';
          phone = getProp record ''phone'';
          postal_code = getProp record ''postal_code'';
          source_url = getProp record ''source_url'' in
      if truthy website then Inr (''website:'' @ ToString rt website)
      else if truthy business_name \<and> truthy phone \<and> truthy postal_code then
        thenE (callLower business_name)
          (\<lambda>n. ''composite:'' @ ToString rt n @ '':'' @ ToString rt phone @ '':''
                 @ ToString rt postal_code)
      else if truthy business_name \<and> truthy postal_code then
        thenE (callLower business_name)
          (\<lambda>n. ''name-zip:'' @ ToString rt n @ '':'' @ ToString rt postal_code)
      else if truthy source_url then
        thenE (optLower business_name)
          (\<lambda>n. ''source:'' @ ToString rt source_url @ '':''
                 @ ToString rt (js_or n (JStr ''unknown'')))
      else Inr (''unique:'' @ NumberToString rt (fst e) @ '':'' @ NumberToString rt (snd e)))"

section \<open>Record merger\<close>

fun num_lt :: "jsnum \<Rightarrow> jsnum \<Rightarrow> bool" where
  "num_lt NaN _ = False"
| "num_lt _ NaN = False"
| "num_lt (Fin x) (Fin y) = (x < y)"
| "num_lt (Fin _) PosInf = True"
| "num_lt (Fin _) NegInf = False"
| "num_lt PosInf _ = False"
| "num_lt NegInf NegInf = False"
| "num_lt NegInf _ = True"

fun str_lt :: "string \<Rightarrow> string \<Rightarrow> bool" where
  \<comment> \<open>code-unit order of two strings\<close>
  "str_lt _ [] = False"
| "str_lt [] (_ # _) = True"
| "str_lt (a # as) (b # bs) =
     ((of_char a :: nat) < of_char b \<or> (a = b \<and> str_lt as bs))"

definition primString :: "jsval \<Rightarrow> string option" where
  \<comment> \<open>the operands whose primitive value is a string\<close>
  "primString v = (case v of JStr s \<Rightarrow> Some s | JObj s \<Rightarrow> Some s | _ \<Rightarrow> None)"

definition js_gt :: "runtime \<Rightarrow> jsval \<Rightarrow> jsval \<Rightarrow> bool" where
  \<comment> \<open>\<^verbatim>\<open>a > b\<close>\<close>
  "js_gt rt a b =
     (case (primString a, primString b) of
        (Some s, Some t) \<Rightarrow> str_lt t s
      | _ \<Rightarrow> num_lt (ToNumber rt b) (ToNumber rt a))"

fun joinWith :: "string \<Rightarrow> string list \<Rightarrow> string" where
  "joinWith sep [] = []"
| "joinWith sep [x] = x"
| "joinWith sep (x # y # ys) = x @ sep @ joinWith sep (y # ys)"

definition mergeNotes :: "runtime \<Rightarrow> jsobj \<Rightarrow> jsobj \<Rightarrow> jsval" where
  \<comment> \<open>\<^verbatim>\<open>[existing.notes, incoming.notes].filter(Boolean).join(' | ')\<close>\<close>
  "mergeNotes rt existing incoming =
     JStr (joinWith '' | ''
            (map (ToString rt)
               (filter truthy [getProp existing ''notes'', getProp incoming ''notes''])))"

definition assign :: "jsobj \<Rightarrow> jsobj \<Rightarrow> jsobj" where
  \<comment> \<open>\<^verbatim>\<open>{...target, ...source}\<close>: a key keeps its first position\<close>
  "assign target source = foldl (\<lambda>obj (k, v). AList.update k v obj) target source"

definition fillMissing :: "jsobj \<Rightarrow> jsobj \<Rightarrow> jsobj" where
  \<comment> \<open>the \<^verbatim>\<open>Object.keys(incoming).forEach\<close> loop\<close>
  "fillMissing existing incoming =
     foldl (\<lambda>merged key.
              if \<not> truthy (getProp merged key) \<and> truthy (getProp incoming key)
              then AList.update key (getProp incoming key) merged else merged)
           existing (map fst incoming)"

definition mergeRecords :: "runtime \<Rightarrow> jsobj \<Rightarrow> jsobj \<Rightarrow> jsobj" where
  "mergeRecords rt existing incoming =
     (if js_gt rt (getProp incoming ''confidence'') (getProp existing ''confidence'')
      then AList.update ''notes'' (mergeNotes rt existing incoming) (assign existing incoming)
      else AList.update ''notes'' (mergeNotes rt existing incoming)
             (fillMissing existing incoming))"

section \<open>Deduplication engine\<close>

text \<open>
  The \<^verbatim>\<open>Map\<close> of \<^verbatim>\<open>deduplicateRecords\<close> is the list of its entries in insertion order;
  \<^verbatim>\<open>seen.set\<close> replaces the value of a key in place and appends a new key. Each record of
  the loop is paired with the clock and random readings of its key computation.
\<close>

fun dedupLoop ::
  "runtime \<Rightarrow> (string \<times> jsobj) list \<Rightarrow> ((real \<times> real) \<times> jsobj) list
     \<Rightarrow> js_error + (string \<times> jsobj) list" where
  "dedupLoop rt seen [] = Inr seen"
| "dedupLoop rt seen ((e, record) # rest) =
     (case getDeduplicationKey rt e record of
        Inl err \<Rightarrow> Inl err
      | Inr key \<Rightarrow>
          (case map_of seen key of
             Some existing \<Rightarrow>
               dedupLoop rt (AList.update key (mergeRecords rt existing record) seen) rest
           | None \<Rightarrow> dedupLoop rt (AList.update key record seen) rest))"

definition readings :: "(nat \<Rightarrow> real \<times> real) \<Rightarrow> jsobj list \<Rightarrow> ((real \<times> real) \<times> jsobj) list" where
  \<comment> \<open>the \<open>i\<close>-th key computation reads \<open>clock i\<close>\<close>
  "readings clock records = zip (map clock [0..<length records]) records"

definition deduplicateRecords ::
  "runtime \<Rightarrow> (nat \<Rightarrow> real \<times> real) \<Rightarrow> jsobj list \<Rightarrow> js_error + jsobj list" where
  "deduplicateRecords rt clock records =
     thenE (dedupLoop rt [] (readings clock records)) (map snd)"

section \<open>Collectors\<close>

fun js_sub :: "jsnum \<Rightarrow> jsnum \<Rightarrow> jsnum" where
  "js_sub NaN _ = NaN"
| "js_sub _ NaN = NaN"
| "js_sub (Fin x) (Fin y) = Fin (x - y)"
| "js_sub (Fin _) PosInf = NegInf"
| "js_sub (Fin _) NegInf = PosInf"
| "js_sub PosInf PosInf = NaN"
| "js_sub PosInf _ = PosInf"
| "js_sub NegInf NegInf = NaN"
| "js_sub NegInf _ = NegInf"

definition compareConfidence :: "runtime \<Rightarrow> jsobj \<Rightarrow> jsobj \<Rightarrow> jsnum" where
  \<comment> \<open>\<^verbatim>\<open>(a, b) => (b.confidence || 0) - (a.confidence || 0)\<close>\<close>
  "compareConfidence rt a b =
     js_sub (ToNumber rt (js_or (getProp b ''confidence'') (JNum (Fin 0))))
            (ToNumber rt (js_or (getProp a ''confidence'') (JNum (Fin 0))))"

text \<open>
  \<^verbatim>\<open>Array.prototype.sort\<close> is stable, and a comparator that orders consistently fixes
  its result. The model inserts each element, from the last to the first, past the elements
  that the comparator puts strictly before it; a comparator value that is not a number
  counts as zero, as in the language.
\<close>

fun sortInsert :: "('a \<Rightarrow> 'a \<Rightarrow> jsnum) \<Rightarrow> 'a \<Rightarrow> 'a list \<Rightarrow> 'a list" where
  "sortInsert cmp x [] = [x]"
| "sortInsert cmp x (y # ys) =
     (if num_lt (Fin 0) (cmp x y) then y # sortInsert cmp x ys else x # y # ys)"

definition sortBy :: "('a \<Rightarrow> 'a \<Rightarrow> jsnum) \<Rightarrow> 'a list \<Rightarrow> 'a list" where
  "sortBy cmp xs = foldr (sortInsert cmp) xs []"

definition slice0 :: "'a list \<Rightarrow> int \<Rightarrow> 'a list" where
  \<comment> \<open>\<^verbatim>\<open>xs.slice(0, n)\<close> for an integral \<open>n\<close>: a negative end counts from the end\<close>
  "slice0 xs n = (if n < 0 then take (nat (int (length xs) + n)) xs else take (nat n) xs)"

text \<open>
  The result of the functions of the collector module. \<open>c_errors\<close> is the
  \<^verbatim>\<open>meta.errors\<close> list (source and the error whose message is recorded), \<open>c_error\<close>
  the \<^verbatim>\<open>meta.error\<close> string; both are \<open>None\<close> when the property is undefined or not
  set.
\<close>

record collection =
  c_category :: string
  c_geography :: string
  c_total_found :: nat
  c_generated_at :: string
  c_sources_used :: "string list"
  c_execution_time_ms :: "real option"
  c_errors :: "(string \<times> js_error) list option"
  c_error :: "string option"
  c_rows :: "jsobj list"

text \<open>
  \<^verbatim>\<open>collectFromAllSources({ category, geography, maxResults })\<close>, with its collaborators
  as arguments: whether \<^verbatim>\<open>GOOGLE_MAPS_API_KEY\<close> is set, the outcome of
  \<^verbatim>\<open>fetchFromGooglePlaces\<close> (a list of candidates, or the error it threw), the clock
  readings of the key computations, and the time stamp and elapsed time put in the meta.
  The OpenCorporates block is commented out in the source. Deduplication is outside the
  \<^verbatim>\<open>try\<close> blocks, so an exception there leaves the function.
\<close>

definition collectFromAllSources ::
  "runtime \<Rightarrow> (nat \<Rightarrow> real \<times> real) \<Rightarrow> string \<times> real \<Rightarrow> bool \<Rightarrow> js_error + jsobj list
     \<Rightarrow> string \<Rightarrow> string \<Rightarrow> int \<Rightarrow> js_error + collection" where
  "collectFromAllSources rt clock stamp apiKey google category geography maxResults =
     (let (allResults, sourcesUsed, errors) =
            (if apiKey then
               (case google of
                  Inr googleResults \<Rightarrow>
                    (if length googleResults > 0
                     then (googleResults, [''Google Places''], [])
                     else ([], [], []))
                | Inl error \<Rightarrow> ([], [], [(''Google Places'', error)]))
             else ([], [], []))
      in thenE (deduplicateRecords rt clock allResults)
           (\<lambda>deduplicated.
              let sorted = slice0 (sortBy (compareConfidence rt) deduplicated) maxResults in
              \<lparr>c_category = category,
               c_geography = geography,
               c_total_found = length sorted,
               c_generated_at = fst stamp,
               c_sources_used = sourcesUsed,
               c_execution_time_ms = Some (snd stamp),
               c_errors = (if length errors > 0 then Some errors else None),
               c_error = None,
               c_rows = sorted\<rparr>))"

text \<open>
  \<^verbatim>\<open>quickCollect(category, geography, maxResults)\<close>, with the time stamp, the API key
  test and the outcomes of the two fetchers as arguments; \<^verbatim>\<open>maxResults\<close> only goes to
  the fetchers.
\<close>

definition quickCollect ::
  "string \<Rightarrow> bool \<Rightarrow> js_error + jsobj list \<Rightarrow> js_error + jsobj list
     \<Rightarrow> string \<Rightarrow> string \<Rightarrow> js_error + collection" where
  "quickCollect generated_at apiKey google openCorporates category geography =
     (let fallback =
            (case openCorporates of
               Inr results \<Rightarrow>
                 Inr \<lparr>c_category = category,
                      c_geography = geography,
                      c_total_found = length results,
                      c_generated_at = generated_at,
                      c_sources_used = [''OpenCorporates''],
                      c_execution_time_ms = Some 0,
                      c_errors = None,
                      c_error = None,
                      c_rows = results\<rparr>
             | Inl error \<Rightarrow>
                 Inr \<lparr>c_category = category,
                      c_geography = geography,
                      c_total_found = 0,
                      c_generated_at = generated_at,
                      c_sources_used = [],
                      c_execution_time_ms = None,
                      c_errors = None,
                      c_error = Some ''All data sources failed'',
                      c_rows = []\<rparr>)
      in if apiKey then
           (case google of
              Inr results \<Rightarrow>
                (if length results > 0 then
                   Inr \<lparr>c_category = category,
                        c_geography = geography,
                        c_total_found = length results,
                        c_generated_at = generated_at,
                        c_sources_used = [''Google Places''],
                        c_execution_time_ms = Some 0,
                        c_errors = None,
                        c_error = None,
                        c_rows = results\<rparr>
                 else fallback)
            | Inl error \<Rightarrow> fallback)
         else fallback)"

section \<open>Orchestrator\<close>

text \<open>
  \<^verbatim>\<open>orchestrate(params)\<close>. Building the prompt, calling the language model and parsing
  its answer are collaborators: their joint outcome is the argument \<open>llm\<close>, the error
  thrown or the parsed answer. Of the parsed answer the model keeps \<^verbatim>\<open>result.meta\<close>
  (\<open>None\<close> when it is null or undefined, so that assigning to its properties throws) and
  \<^verbatim>\<open>result.rows\<close> (\<open>None\<close> when it is falsy or not an array); a row is an object, or
  \<open>None\<close> for a null row, whose properties cannot be read.

  The result keeps the meta object and, apart from it, the error whose message the handler
  stores in \<^verbatim>\<open>meta.error\<close>. The handler reads \<^verbatim>\<open>params.category\<close> and
  \<^verbatim>\<open>params.geography\<close>, the arguments \<open>category\<close> and \<open>geography\<close>: \<^verbatim>\<open>params\<close> is
  the object that the server builds. The time stamp and the elapsed time are the argument
  \<open>stamp\<close>.
\<close>

record parsed =
  p_meta :: "jsobj option"
  p_rows :: "jsobj option list option"

record orchestration =
  o_meta :: jsobj
  o_error :: "js_error option"
  o_rows :: "jsobj list option"

fun mapE :: "('a \<Rightarrow> js_error + 'b) \<Rightarrow> 'a list \<Rightarrow> js_error + 'b list" where
  \<comment> \<open>\<^verbatim>\<open>xs.map(f)\<close> for an \<open>f\<close> that may throw\<close>
  "mapE f [] = Inr []"
| "mapE f (x # xs) =
     (case f x of
        Inl e \<Rightarrow> Inl e
      | Inr y \<Rightarrow> (case mapE f xs of Inl e \<Rightarrow> Inl e | Inr ys \<Rightarrow> Inr (y # ys)))"

definition normalizeRow :: "runtime \<Rightarrow> jsobj option \<Rightarrow> js_error + jsobj" where
  "normalizeRow rt row = (case row of None \<Rightarrow> Inl TypeError | Some record \<Rightarrow> normalizeRecord rt record)"

definition bindE :: "js_error + 'a \<Rightarrow> ('a \<Rightarrow> js_error + 'b) \<Rightarrow> js_error + 'b" where
  "bindE m f = (case m of Inl e \<Rightarrow> Inl e | Inr x \<Rightarrow> f x)"

definition num :: "nat \<Rightarrow> jsval" where
  "num n = JNum (Fin (real n))"

definition processRows ::
  "runtime \<Rightarrow> (nat \<Rightarrow> real \<times> real) \<Rightarrow> parsed \<Rightarrow> js_error + jsobj option \<times> jsobj list option" where
  \<comment> \<open>the \<^verbatim>\<open>if (result.rows && Array.isArray(result.rows))\<close> block: the meta and the rows
      after it\<close>
  "processRows rt clock result =
     (case p_rows result of
        None \<Rightarrow> Inr (p_meta result, None)
      | Some raw \<Rightarrow>
          bindE (mapE (normalizeRow rt) raw)
            (\<lambda>normalized.
               bindE (deduplicateRecords rt clock normalized)
                 (\<lambda>deduplicated.
                    case p_meta result of
                      None \<Rightarrow> Inl TypeError
                    | Some meta \<Rightarrow>
                        Inr (Some (AList.update ''duplicates_removed''
                                     (JNum (Fin (real (length normalized) - real (length deduplicated))))
                                  (AList.update ''deduplication_applied'' (JBool True)
                                  (AList.update ''total_found'' (num (length deduplicated))
                                     meta))),
                             Some deduplicated))))"

definition orchestrate ::
  "runtime \<Rightarrow> (nat \<Rightarrow> real \<times> real) \<Rightarrow> string \<times> real \<Rightarrow> jsval \<Rightarrow> jsval \<Rightarrow> js_error + parsed
     \<Rightarrow> js_error + orchestration" where
  "orchestrate rt clock stamp category geography llm =
     (case bindE llm
             (\<lambda>result.
                bindE (processRows rt clock result)
                  (\<lambda>(meta, rows).
                     case meta of
                       None \<Rightarrow> Inl TypeError
                     | Some m \<Rightarrow>
                         Inr \<lparr>o_meta = AList.update ''orchestrator_version'' (JStr ''1.0.0'')
                                         (AList.update ''execution_time_ms''
                                            (JNum (Fin (snd stamp))) m),
                              o_error = None,
                              o_rows = rows\<rparr>)) of
        Inr result \<Rightarrow> Inr result
      | Inl error \<Rightarrow>
          Inr \<lparr>o_meta = [(''category'', category),
                          (''geography'', geography),
                          (''total_found'', num 0),
                          (''generated_at'', JStr (fst stamp)),
                          (''sources_used'', JObj []),
                          (''execution_time_ms'', JNum (Fin (snd stamp)))],
               o_error = Some error,
               o_rows = Some []\<rparr>)"

section \<open>A runtime for evaluation\<close>

text \<open>
  The theorems below hold for every runtime. The closed examples need one to compute with:
  \<open>basic_runtime\<close> answers as Node does on a fragment of its inputs, and the examples
  consult it only there.
  \<^item> \<open>URL_href_basic\<close>: an input \<^verbatim>\<open>http://\<close> or \<^verbatim>\<open>https://\<close>, a host of dot-separated
    non-empty labels of ASCII letters, and a path that is empty or starts with a slash and
    has only letters, digits, slashes, underscores and hyphens. The href has the host in
    lower case and the path \<^verbatim>\<open>/\<close> when the input has none. A host with a space is a
    parse failure in the runtime too (a forbidden host code point).
  \<^item> \<open>NumberToString_basic\<close>: the integers, printed in decimal.
  \<^item> \<open>StringToNumber_basic\<close>: the strings of decimal digits, and the blank strings, which
    are zero.
\<close>

definition isAlpha :: "char \<Rightarrow> bool" where
  "isAlpha c = (c \<in> set lowers \<or> c \<in> set uppers)"

fun hostLabels :: "bool \<Rightarrow> string \<Rightarrow> bool" where
  \<comment> \<open>the flag tells whether the current label has a letter already\<close>
  "hostLabels seen [] = seen"
| "hostLabels seen (c # cs) =
     (if c = CHR ''.'' then seen \<and> hostLabels False cs else isAlpha c \<and> hostLabels True cs)"

definition pathChar :: "char \<Rightarrow> bool" where
  "pathChar c = (isAlpha c \<or> isDigit c \<or> c \<in> set ''/_-'')"

definition URL_href_basic :: "string \<Rightarrow> string option" where
  "URL_href_basic s =
     (let scheme = (if startsWith s ''https://'' then ''https://''
                    else if startsWith s ''http://'' then ''http://'' else []);
          rest = drop (length scheme) s;
          host = takeWhile (\<lambda>c. c \<noteq> CHR ''/'') rest;
          path = dropWhile (\<lambda>c. c \<noteq> CHR ''/'') rest
      in if scheme \<noteq> [] \<and> hostLabels False host \<and> list_all pathChar path
         then Some (scheme @ toLowerCase host @ (if path = [] then ''/'' else path))
         else None)"

definition digitChar :: "nat \<Rightarrow> char" where
  "digitChar d = ''0123456789'' ! d"

fun showNat :: "nat \<Rightarrow> string" where
  "showNat n = (if n < 10 then [digitChar n] else showNat (n div 10) @ [digitChar (n mod 10)])"

definition NumberToString_basic :: "real \<Rightarrow> string" where
  "NumberToString_basic x = (if x < 0 then ''-'' else []) @ showNat (nat \<lfloor>\<bar>x\<bar>\<rfloor>)"

definition digitValue :: "char \<Rightarrow> nat" where
  "digitValue c = length (takeWhile (\<lambda>d. d \<noteq> c) ''0123456789'')"

definition StringToNumber_basic :: "string \<Rightarrow> jsnum" where
  "StringToNumber_basic s =
     (let t = trim s in
      if t = [] then Fin 0
      else if list_all isDigit t then Fin (real (foldl (\<lambda>n c. 10 * n + digitValue c) 0 t))
      else NaN)"

definition basic_runtime :: runtime where
  "basic_runtime =
     \<lparr>URL_href = URL_href_basic,
      NumberToString = NumberToString_basic,
      StringToNumber = StringToNumber_basic\<rparr>"

section \<open>Notions of the specification\<close>


definition inUnitInterval :: "jsval \<Rightarrow> bool" where
  "inUnitInterval v = (case v of JNum (Fin x) \<Rightarrow> 0 \<le> x \<and> x \<le> 1 | _ \<Rightarrow> False)"

text \<open>
  The values on which the string methods of the normalizer can be called, and the fields
  it trims.
\<close>

definition textual :: "jsval \<Rightarrow> bool" where
  "textual v = (case v of JUndefined \<Rightarrow> True | JNull \<Rightarrow> True | JStr _ \<Rightarrow> True | _ \<Rightarrow> False)"

definition trimmed_fields :: "string list" where
  "trimmed_fields =
     [''business_name'', ''category'', ''street'', ''city'', ''state'', ''postal_code'',
      ''country'', ''email'', ''source_url'', ''notes'']"

text \<open>
  The deduplication keys of a sequence of records, as the loop computes them, and the
  distinct keys among them in the order in which each is first seen.
\<close>

definition recordKeys :: "runtime \<Rightarrow> (nat \<Rightarrow> real \<times> real) \<Rightarrow> jsobj list \<Rightarrow> js_error + string list" where
  "recordKeys rt clock records =
     mapE (\<lambda>(e, record). getDeduplicationKey rt e record) (readings clock records)"

fun firstSeen :: "'a list \<Rightarrow> 'a list" where
  "firstSeen [] = []"
| "firstSeen (x # xs) = x # firstSeen (filter (\<lambda>y. y \<noteq> x) xs)"

text \<open>
  What the specification asks of the engine for one key: the records with that key, merged
  from the first one on in arrival order.
\<close>

definition groupOf :: "string \<Rightarrow> (string \<times> jsobj) list \<Rightarrow> jsobj list" where
  "groupOf k entries = map snd (filter (\<lambda>(k', record). k' = k) entries)"

definition mergeAll :: "runtime \<Rightarrow> jsobj list \<Rightarrow> jsobj" where
  "mergeAll rt records = (case records of [] \<Rightarrow> [] | r # rest \<Rightarrow> foldl (mergeRecords rt) r rest)"

text \<open>
  The loop of \<^verbatim>\<open>deduplicateRecords\<close> over records whose keys are computed already; the
  proofs go through it.
\<close>

fun dedupKeyed :: "runtime \<Rightarrow> (string \<times> jsobj) list \<Rightarrow> (string \<times> jsobj) list \<Rightarrow> (string \<times> jsobj) list" where
  "dedupKeyed rt seen [] = seen"
| "dedupKeyed rt seen ((key, record) # rest) =
     (case map_of seen key of
        Some existing \<Rightarrow> dedupKeyed rt (AList.update key (mergeRecords rt existing record) seen) rest
      | None \<Rightarrow> dedupKeyed rt (AList.update key record seen) rest)"

text \<open>
  A fetcher yields nothing when it throws or returns no record. The fetchers of the
  repository catch the failure of a request and return what they have gathered, so a
  fetcher whose requests all fail returns the empty list.
\<close>

definition yieldsNothing :: "js_error + jsobj list \<Rightarrow> bool" where
  "yieldsNothing outcome = (case outcome of Inl error \<Rightarrow> True | Inr results \<Rightarrow> results = [])"

text \<open>
  The candidates that \<^verbatim>\<open>collectFromAllSources\<close> gathers, and the number by which its
  comparator orders a row.
\<close>

definition candidates :: "bool \<Rightarrow> js_error + jsobj list \<Rightarrow> jsobj list" where
  "candidates apiKey google =
     (if apiKey then (case google of Inr results \<Rightarrow> results | Inl error \<Rightarrow> []) else [])"

definition confidenceKey :: "runtime \<Rightarrow> jsobj \<Rightarrow> jsnum" where
  "confidenceKey rt r = ToNumber rt (js_or (getProp r ''confidence'') (JNum (Fin 0)))"

definition confidenceValue :: "runtime \<Rightarrow> jsobj \<Rightarrow> real" where
  "confidenceValue rt r = (case confidenceKey rt r of Fin x \<Rightarrow> x | _ \<Rightarrow> 0)"

section \<open>Example data\<close>

text \<open>
  Two candidates as \<^verbatim>\<open>fetchFromGooglePlaces\<close> builds them, and the canonical record of
  the first.
\<close>

definition example_google_row :: jsobj where
  "example_google_row =
     [(''business_name'', JStr ''Sunshine Realty''),
      (''category'', JStr ''Real Estate Agent''),
      (''street'', JStr ''100 Main St, Tampa, FL 33602, USA''),
      (''city'', JStr ''Tampa''),
      (''state'', JStr ''FL''),
      (''postal_code'', JStr ''33602''),
      (''country'', JStr ''USA''),
      (''phone'', JStr ''(813) 555-1234''),
      (''email'', JNull),
      (''website'', JNull),
      (''source_url'', JStr ''https://www.google.com/maps/place/?q=place_id:abc''),
      (''confidence'', JNum (Fin 0.75)),
      (''notes'', JStr ''Rating: 3.8 (12 reviews)''),
      (''google_place_id'', JStr ''abc''),
      (''google_rating'', JNum (Fin 3.8)),
      (''google_reviews'', JNum (Fin 12)),
      (''google_types'', JStr ''real_estate_agency, point_of_interest''),
      (''is_operational'', JBool True)]"

definition example_google_second :: jsobj where
  "example_google_second =
     [(''business_name'', JStr ''Harbor Homes''),
      (''category'', JStr ''Real Estate Agent''),
      (''street'', JStr ''200 Bay St, Tampa, FL 33606, USA''),
      (''city'', JStr ''Tampa''),
      (''state'', JStr ''FL''),
      (''postal_code'', JStr ''33606''),
      (''country'', JStr ''USA''),
      (''phone'', JStr ''(813) 555-9876''),
      (''email'', JNull),
      (''website'', JNull),
      (''source_url'', JStr ''https://www.google.com/maps/place/?q=place_id:def''),
      (''confidence'', JNum (Fin 0.9)),
      (''notes'', JStr ''Rating: 4.9 (40 reviews)''),
      (''google_place_id'', JStr ''def''),
      (''google_rating'', JNum (Fin 4.9)),
      (''google_reviews'', JNum (Fin 40)),
      (''google_types'', JStr ''real_estate_agency''),
      (''is_operational'', JBool True)]"

definition example_google_canonical :: jsobj where
  "example_google_canonical =
     [(''business_name'', JStr ''Sunshine Realty''),
      (''category'', JStr ''Real Estate Agent''),
      (''street'', JStr ''100 Main St, Tampa, FL 33602, USA''),
      (''city'', JStr ''Tampa''),
      (''state'', JStr ''FL''),
      (''postal_code'', JStr ''33602''),
      (''country'', JStr ''USA''),
      (''phone'', JStr ''+18135551234''),
      (''email'', JNull),
      (''website'', JNull),
      (''source_url'', JStr ''https://www.google.com/maps/place/?q=place_id:abc''),
      (''confidence'', JNum (Fin 0.75)),
      (''notes'', JStr ''Rating: 3.8 (12 reviews)'')]"

text \<open>
  Canonical records: the one of a candidate without properties, and records of a business
  known by name and postal code.
\<close>

definition blank_record :: jsobj where
  \<comment> \<open>the canonical record of a candidate without properties\<close>
  "blank_record =
     [(''business_name'', JNull), (''category'', JNull), (''street'', JNull), (''city'', JNull),
      (''state'', JNull), (''postal_code'', JNull), (''country'', JStr ''US''), (''phone'', JNull),
      (''email'', JNull), (''website'', JNull), (''source_url'', JNull),
      (''confidence'', JNum (Fin 0.5)), (''notes'', JNull)]"

definition contact :: "string \<Rightarrow> string \<Rightarrow> jsval \<Rightarrow> real \<Rightarrow> jsobj" where
  "contact name postal email confidence =
     [(''business_name'', JStr name), (''category'', JNull), (''street'', JNull), (''city'', JNull),
      (''state'', JNull), (''postal_code'', JStr postal), (''country'', JStr ''US''), (''phone'', JNull),
      (''email'', email), (''website'', JNull), (''source_url'', JNull),
      (''confidence'', JNum (Fin confidence)), (''notes'', JNull)]"

definition example_contacts :: "jsobj list" where
  "example_contacts =
     [contact ''ABC Realty'' ''33602'' JNull 0.9,
      contact ''Bay Plumbing'' ''33701'' JNull 0.7,
      contact ''ABC Realty'' ''33602'' (JStr ''info@abc.com'') 0.4]"

text \<open>
  The end-to-end scenario of the specification: the parsed answer of the language model,
  its rows after normalization, and the record they merge into.
\<close>

definition example_answer_raw :: "jsobj option list" where
  "example_answer_raw =
     [Some [(''business_name'', JStr ''ABC Realty''), (''website'', JStr ''abc.com''),
            (''phone'', JStr ''8135551234''), (''confidence'', JNum (Fin 0.6))],
      Some [(''business_name'', JStr ''ABC Realty''), (''website'', JStr ''www.abc.com/''),
            (''phone'', JStr ''(813) 555-1234''), (''confidence'', JNum (Fin 0.9)),
            (''notes'', JStr ''verified'')]]"

definition example_answer :: parsed where
  "example_answer =
     \<lparr>p_meta = Some [(''category'', JStr ''Real Estate Agent'')],
      p_rows = Some example_answer_raw\<rparr>"

definition example_answer_rows :: "jsobj list" where
  "example_answer_rows =
     [[(''business_name'', JStr ''ABC Realty''), (''category'', JNull), (''street'', JNull),
       (''city'', JNull), (''state'', JNull), (''postal_code'', JNull), (''country'', JStr ''US''),
       (''phone'', JStr ''+18135551234''), (''email'', JNull),
       (''website'', JStr ''https://abc.com''), (''source_url'', JNull),
       (''confidence'', JNum (Fin 0.6)), (''notes'', JNull)],
      [(''business_name'', JStr ''ABC Realty''), (''category'', JNull), (''street'', JNull),
       (''city'', JNull), (''state'', JNull), (''postal_code'', JNull), (''country'', JStr ''US''),
       (''phone'', JStr ''+18135551234''), (''email'', JNull),
       (''website'', JStr ''https://abc.com''), (''source_url'', JNull),
       (''confidence'', JNum (Fin 0.9)), (''notes'', JStr ''verified'')]]"

definition example_answer_merged :: jsobj where
  "example_answer_merged =
     [(''business_name'', JStr ''ABC Realty''), (''category'', JNull), (''street'', JNull),
      (''city'', JNull), (''state'', JNull), (''postal_code'', JNull), (''country'', JStr ''US''),
      (''phone'', JStr ''+18135551234''), (''email'', JNull),
      (''website'', JStr ''https://abc.com''), (''source_url'', JNull),
      (''confidence'', JNum (Fin 0.9)), (''notes'', JStr ''verified'')]"

section \<open>Properties\<close>

lemmas string_defs = startsWith_def isDigit_def isSpace_def trim_def toUpperCase_def
  toLowerCase_def upperChar_def lowerChar_def lowers_def uppers_def

lemmas value_defs = truthy_def js_or_def getProp_def isNumber_def mapStr_def thenE_def
  optTrim_def

lemma literal_keys: "literal fs = Inr obj \<Longrightarrow> map fst obj = map fst fs"
proof (induction fs arbitrary: obj)
  case Nil
  then show ?case by simp
next
  case (Cons f fs)
  obtain k m where f: "f = (k, m)" by (cases f)
  with Cons.prems obtain v rest where "m = Inr v" "literal fs = Inr rest" "obj = (k, v) # rest"
    by (auto split: sum.splits)
  with Cons.IH f show ?case by simp
qed

lemma normalizeRecord_keys: "normalizeRecord rt r = Inr c \<Longrightarrow> map fst c = canonical_fields"
  unfolding normalizeRecord_def canonical_fields_def
  by (drule literal_keys) simp

text \<open>
  Claim C5, as the code has it. The specification says that every string that starts with
  \<^verbatim>\<open>+\<close> comes back verbatim. The code tests the digit count first, so the string is
  returned unchanged when it starts with \<^verbatim>\<open>+\<close> and its digits are neither ten nor
  eleven with a leading 1.
\<close>

theorem normalizePhone_plus_verbatim:
  assumes "startsWith s ''+''"
    and "length (filter isDigit s) \<noteq> 10"
    and "\<not> (length (filter isDigit s) = 11 \<and> startsWith (filter isDigit s) ''1'')"
  shows "normalizePhone (JStr s) = Inr (JStr s)"
proof -
  from assms(1) have "s \<noteq> []" by (auto simp: startsWith_def)
  then have "truthy (JStr s)" by (simp add: truthy_def)
  with assms show ?thesis by (auto simp: normalizePhone_def Let_def)
qed

text \<open>
  Claim C5 at \<^verbatim>\<open>+44 20 7946 0958\<close>, the example of the specification: twelve digits, so
  the string is returned verbatim.
\<close>

theorem normalizePhone_plus_verbatim_witness:
  "startsWith ''+44 20 7946 0958'' ''+''
   \<and> length (filter isDigit ''+44 20 7946 0958'') \<noteq> 10
   \<and> \<not> (length (filter isDigit ''+44 20 7946 0958'') = 11
         \<and> startsWith (filter isDigit ''+44 20 7946 0958'') ''1'')
   \<and> normalizePhone (JStr ''+44 20 7946 0958'') = Inr (JStr ''+44 20 7946 0958'')"
  using normalizePhone_plus_verbatim [of "''+44 20 7946 0958''"]
  by (simp add: startsWith_def isDigit_def)

text \<open>
  Claim C5 as the specification words it fails at \<^verbatim>\<open>+1 (813) 555-1234\<close>: the string
  starts with \<^verbatim>\<open>+\<close>, has eleven digits with a leading 1, and is rebuilt from its digits.
\<close>

theorem normalizePhone_plus_counterexample:
  "startsWith ''+1 (813) 555-1234'' ''+''
   \<and> normalizePhone (JStr ''+1 (813) 555-1234'') = Inr (JStr ''+18135551234'')
   \<and> normalizePhone (JStr ''+1 (813) 555-1234'') \<noteq> Inr (JStr ''+1 (813) 555-1234'')"
  by (simp add: normalizePhone_def truthy_def startsWith_def isDigit_def)

text \<open>
  Claim C4 says that a string on which URL parsing fails is returned unchanged. When the
  prefix had to be added, the handler of \<^verbatim>\<open>normalizeUrl\<close> returns the reassigned variable:
  the result is the input with \<^verbatim>\<open>https://\<close> in front, and differs from the input.
\<close>

theorem normalizeUrl_failure_returns_prefixed:
  assumes "s \<noteq> []"
    and "\<not> startsWith s ''http://''"
    and "\<not> startsWith s ''https://''"
    and "URL_href rt (''https://'' @ s) = None"
  shows "normalizeUrl rt (JStr s) = JStr (''https://'' @ s) \<and> normalizeUrl rt (JStr s) \<noteq> JStr s"
  using assms by (simp add: normalizeUrl_def truthy_def)

text \<open>
  Claim C4 at \<^verbatim>\<open>not a url but text\<close>, the example of the specification: the result is
  \<^verbatim>\<open>https://not a url but text\<close>.
\<close>

theorem normalizeUrl_failure_returns_prefixed_witness:
  "''not a url but text'' \<noteq> []
   \<and> \<not> startsWith ''not a url but text'' ''http://''
   \<and> \<not> startsWith ''not a url but text'' ''https://''
   \<and> URL_href basic_runtime (''https://'' @ ''not a url but text'') = None
   \<and> normalizeUrl basic_runtime (JStr ''not a url but text'') = JStr ''https://not a url but text''"
  using normalizeUrl_failure_returns_prefixed [of "''not a url but text''" basic_runtime]
  by (simp add: basic_runtime_def URL_href_basic_def startsWith_def isAlpha_def lowers_def uppers_def)

text \<open>
  Claim C7, as the code has it. The confidence of the canonical record is the candidate's
  confidence when that is a number, whatever its value, and 0.5 otherwise. It lies in
  \<open>[0,1]\<close> exactly when the candidate has no number there or a number in \<open>[0,1]\<close>.
\<close>

theorem normalizeRecord_confidence:
  assumes "normalizeRecord rt r = Inr c"
  shows "getProp c ''confidence''
           = (if isNumber (getProp r ''confidence'') then getProp r ''confidence''
              else JNum (Fin 0.5))
         \<and> (inUnitInterval (getProp c ''confidence'')
              \<longleftrightarrow> (isNumber (getProp r ''confidence'') \<longrightarrow> inUnitInterval (getProp r ''confidence'')))"
proof -
  from assms have "map_of c ''confidence''
      = Some (if isNumber (getProp r ''confidence'') then getProp r ''confidence'' else JNum (Fin 0.5))"
    unfolding normalizeRecord_def by (auto split: sum.splits)
  then show ?thesis by (simp add: getProp_def inUnitInterval_def)
qed

text \<open>
  Claim C3 says that the record normalizer never throws, also on fields of unexpected
  types. A candidate whose postal code or phone is a number makes it throw a TypeError:
  the optional chaining guards null and undefined only, and \<^verbatim>\<open>normalizePhone\<close> calls
  \<^verbatim>\<open>replace\<close> on any truthy value.
\<close>

theorem normalizeRecord_number_field_throws:
  "normalizeRecord rt [(''postal_code'', JNum (Fin 33602))] = Inl TypeError
   \<and> normalizeRecord rt [(''phone'', JNum (Fin 8135551234))] = Inl TypeError"
  by (simp add: normalizeRecord_def value_defs normalizePhone_def)

text \<open>
  The normalizer returns exactly on the candidates whose trimmed fields are strings, null
  or undefined and whose phone is falsy or a string; on every other candidate it throws.
\<close>

lemma optTrim_returns: "(\<exists>v. thenE (optTrim x) f = Inr v) \<longleftrightarrow> textual x"
  by (cases x) (simp_all add: thenE_def optTrim_def textual_def)

lemma normalizePhone_returns:
  "(\<exists>v. normalizePhone x = Inr v) \<longleftrightarrow> (\<not> truthy x \<or> textual x)"
  by (cases x) (auto simp: normalizePhone_def truthy_def textual_def Let_def)

lemma literal_returns: "(\<exists>obj. literal fs = Inr obj) \<longleftrightarrow> (\<forall>(k, m)\<in>set fs. \<exists>v. m = Inr v)"
proof (induction fs)
  case Nil
  then show ?case by simp
next
  case (Cons f fs)
  obtain k m where f: "f = (k, m)" by (cases f)
  show ?case
  proof (cases m)
    case (Inl e)
    then show ?thesis by (simp add: f)
  next
    case (Inr v)
    with Cons.IH show ?thesis by (cases "literal fs") (auto simp: f)
  qed
qed

lemma normalizeRecord_returns:
  "(\<exists>c. normalizeRecord rt r = Inr c)
   \<longleftrightarrow> (\<forall>k\<in>set trimmed_fields. textual (getProp r k))
       \<and> (\<not> truthy (getProp r ''phone'') \<or> textual (getProp r ''phone''))"
  unfolding normalizeRecord_def literal_returns trimmed_fields_def
  by (simp only: list.set ball_simps bex_simps prod.case optTrim_returns normalizePhone_returns
      sum.inject simp_thms ex_simps) blast

lemma literal_throws: "literal fs = Inl e \<Longrightarrow> \<exists>(k, m)\<in>set fs. m = Inl e"
proof (induction fs)
  case Nil
  then show ?case by simp
next
  case (Cons f fs)
  then show ?case by (cases f) (auto split: sum.splits)
qed

lemma optTrim_throws: "thenE (optTrim x) f = Inl e \<Longrightarrow> e = TypeError"
  by (cases x) (simp_all add: thenE_def optTrim_def)

lemma normalizePhone_throws: "normalizePhone x = Inl e \<Longrightarrow> e = TypeError"
  by (cases x) (auto simp: normalizePhone_def Let_def split: if_splits)

lemma normalizeRecord_throws: "normalizeRecord rt r = Inl e \<Longrightarrow> e = TypeError"
  unfolding normalizeRecord_def
  by (drule literal_throws)
     (simp only: list.set bex_simps prod.case, (elim disjE optTrim_throws normalizePhone_throws; simp)+)

lemma dropWhile_fix: "dropWhile P (dropWhile P xs) = dropWhile P xs"
  by (induction xs) auto

lemma trim_front: "dropWhile isSpace (trim s) = trim s"
proof -
  define u where "u = dropWhile isSpace s"
  have u: "dropWhile isSpace u = u" by (simp add: u_def dropWhile_fix)
  have t: "trim s = rev (dropWhile isSpace (rev u))" by (simp add: trim_def u_def)
  have "u = trim s @ rev (takeWhile isSpace (rev u))"
    by (metis t rev_append rev_rev_ident takeWhile_dropWhile_id)
  then obtain w where w: "u = trim s @ w" ..
  show ?thesis
  proof (cases "trim s")
    case Nil
    then show ?thesis by simp
  next
    case (Cons c cs)
    with w have "u = c # cs @ w" by simp
    with u have "\<not> isSpace c" by (metis dropWhile_eq_Cons_conv)
    with Cons show ?thesis by simp
  qed
qed

lemma trim_back: "dropWhile isSpace (rev (trim s)) = rev (trim s)"
  by (simp add: trim_def dropWhile_fix)

lemma trim_fixed: "dropWhile isSpace t = t \<Longrightarrow> dropWhile isSpace (rev t) = rev t \<Longrightarrow> trim t = t"
  by (simp add: trim_def)

lemma trim_trim: "trim (trim s) = trim s"
  by (rule trim_fixed [OF trim_front trim_back])

lemma isSpace_upperChar: "isSpace (upperChar c) = isSpace c"
  by (simp add: isSpace_def upperChar_def lowers_def uppers_def)

lemma isSpace_lowerChar: "isSpace (lowerChar c) = isSpace c"
  by (simp add: isSpace_def lowerChar_def lowers_def uppers_def)

lemma upperChar_idem: "upperChar (upperChar c) = upperChar c"
  by (simp add: upperChar_def lowers_def uppers_def)

lemma lowerChar_idem: "lowerChar (lowerChar c) = lowerChar c"
  by (simp add: lowerChar_def lowers_def uppers_def)

lemma trim_map:
  assumes "\<And>c. isSpace (f c) = isSpace c"
  shows "trim (map f s) = map f (trim s)"
proof -
  have "isSpace \<circ> f = isSpace" using assms by (simp add: fun_eq_iff)
  then show ?thesis by (simp add: trim_def dropWhile_map rev_map)
qed

lemma trim_toUpperCase: "trim (toUpperCase (trim s)) = toUpperCase (trim s)"
  by (simp add: toUpperCase_def trim_map isSpace_upperChar trim_trim)

lemma trim_toLowerCase: "trim (toLowerCase (trim s)) = toLowerCase (trim s)"
  by (simp add: toLowerCase_def trim_map isSpace_lowerChar trim_trim)

lemma toUpperCase_idem: "toUpperCase (toUpperCase s) = toUpperCase s"
  by (simp add: toUpperCase_def upperChar_idem)

lemma toLowerCase_idem: "toLowerCase (toLowerCase s) = toLowerCase s"
  by (simp add: toLowerCase_def lowerChar_idem)

lemma trimOrNull_stable:
  assumes "thenE (optTrim x) (\<lambda>t. js_or t JNull) = Inr v"
  shows "thenE (optTrim v) (\<lambda>t. js_or t JNull) = Inr v"
  using assms
  by (cases x) (auto simp: thenE_def optTrim_def js_or_def truthy_def trim_trim split: if_splits)

lemma caseOrDefault_stable:
  assumes "thenE (optTrim x) (\<lambda>t. js_or (mapStr f t) d) = Inr v"
    and f_trim: "\<And>s. trim (f (trim s)) = f (trim s)"
    and f_idem: "\<And>s. f (f s) = f s"
    and d: "thenE (optTrim d) (\<lambda>t. js_or (mapStr f t) d) = Inr d"
  shows "thenE (optTrim v) (\<lambda>t. js_or (mapStr f t) d) = Inr v"
proof (cases x)
  case (JStr s)
  show ?thesis
  proof (cases "f (trim s) = []")
    case True
    with JStr assms(1) have "v = d"
      by (simp add: thenE_def optTrim_def js_or_def truthy_def mapStr_def)
    with d show ?thesis by simp
  next
    case False
    with JStr assms(1) have "v = JStr (f (trim s))"
      by (simp add: thenE_def optTrim_def js_or_def truthy_def mapStr_def)
    with False show ?thesis
      by (simp add: thenE_def optTrim_def js_or_def truthy_def mapStr_def f_trim f_idem)
  qed
qed (use assms(1) d in \<open>auto simp: thenE_def optTrim_def js_or_def truthy_def mapStr_def\<close>)

lemma stateField_stable:
  "thenE (optTrim x) (\<lambda>t. js_or (mapStr toUpperCase t) JNull) = Inr v
   \<Longrightarrow> thenE (optTrim v) (\<lambda>t. js_or (mapStr toUpperCase t) JNull) = Inr v"
  by (erule caseOrDefault_stable)
     (simp_all add: trim_toUpperCase toUpperCase_idem thenE_def optTrim_def js_or_def truthy_def mapStr_def)

lemma emailField_stable:
  "thenE (optTrim x) (\<lambda>t. js_or (mapStr toLowerCase t) JNull) = Inr v
   \<Longrightarrow> thenE (optTrim v) (\<lambda>t. js_or (mapStr toLowerCase t) JNull) = Inr v"
  by (erule caseOrDefault_stable)
     (simp_all add: trim_toLowerCase toLowerCase_idem thenE_def optTrim_def js_or_def truthy_def mapStr_def)

lemma countryDefault_stable:
  "thenE (optTrim (JStr ''US'')) (\<lambda>t. js_or (mapStr toUpperCase t) (JStr ''US'')) = Inr (JStr ''US'')"
  by (simp add: thenE_def optTrim_def js_or_def truthy_def mapStr_def string_defs)

lemma countryField_stable:
  "thenE (optTrim x) (\<lambda>t. js_or (mapStr toUpperCase t) (JStr ''US'')) = Inr v
   \<Longrightarrow> thenE (optTrim v) (\<lambda>t. js_or (mapStr toUpperCase t) (JStr ''US'')) = Inr v"
  by (erule caseOrDefault_stable)
     (simp_all add: trim_toUpperCase toUpperCase_idem countryDefault_stable)

lemma plus_not_digit: "\<not> isDigit (CHR ''+'')"
  by (simp add: isDigit_def)

lemma normalizePhone_stable:
  assumes "normalizePhone x = Inr v"
  shows "normalizePhone v = Inr v"
proof (cases "truthy x")
  case False
  with assms show ?thesis by (auto simp: normalizePhone_def truthy_def)
next
  case True
  with assms obtain s where x: "x = JStr s"
    by (cases x) (auto simp: normalizePhone_def)
  define ds where "ds = filter isDigit s"
  have ds: "filter isDigit ds = ds" by (simp add: ds_def)
  have one: "isDigit (CHR ''1'')" by (simp add: isDigit_def)
  consider (ten) "length ds = 10"
    | (eleven) "length ds \<noteq> 10" "length ds = 11 \<and> startsWith ds ''1''"
    | (plus) "length ds \<noteq> 10" "\<not> (length ds = 11 \<and> startsWith ds ''1'')" "startsWith s ''+''"
    | (other) "length ds \<noteq> 10" "\<not> (length ds = 11 \<and> startsWith ds ''1'')" "\<not> startsWith s ''+''"
    by blast
  then show ?thesis
  proof cases
    case ten
    with assms True x have "v = JStr (''+1'' @ ds)"
      by (auto simp: normalizePhone_def ds_def Let_def split: if_splits)
    with ten ds one show ?thesis
      by (simp add: normalizePhone_def truthy_def Let_def plus_not_digit startsWith_def)
  next
    case eleven
    with assms True x have "v = JStr (''+'' @ ds)"
      by (auto simp: normalizePhone_def ds_def Let_def split: if_splits)
    with eleven ds show ?thesis
      by (simp add: normalizePhone_def truthy_def Let_def plus_not_digit)
  next
    case plus
    with assms True x have "v = x"
      by (auto simp: normalizePhone_def ds_def Let_def split: if_splits)
    with assms show ?thesis by simp
  next
    case other
    with assms True x have "v = JStr (''+'' @ ds)"
      by (auto simp: normalizePhone_def ds_def Let_def split: if_splits)
    with other ds show ?thesis
      by (simp add: normalizePhone_def truthy_def Let_def plus_not_digit startsWith_def)
  qed
qed

lemma literal_ConsE:
  assumes "literal ((k, m) # rest) = Inr obj"
  obtains v obj' where "m = Inr v" "literal rest = Inr obj'" "obj = (k, v) # obj'"
  using assms by (auto split: sum.splits)

lemma literal_Inr: "literal ((k, Inr v) # rest) = (case literal rest of Inl e \<Rightarrow> Inl e | Inr obj \<Rightarrow> Inr ((k, v) # obj))"
  by simp

text \<open>
  Claim C6, as the code has it. Normalizing a canonical record again does not throw and
  changes at most the website, to which \<^verbatim>\<open>normalizeUrl\<close> is applied once more; the record
  is unchanged when \<^verbatim>\<open>normalizeUrl\<close> leaves its website as it is.
\<close>

theorem normalizeRecord_again:
  assumes "normalizeRecord rt r = Inr c"
  shows "normalizeRecord rt c
           = Inr (AList.update ''website'' (normalizeUrl rt (getProp c ''website'')) c)
         \<and> (normalizeUrl rt (getProp c ''website'') = getProp c ''website''
              \<longrightarrow> normalizeRecord rt c = Inr c)"
proof -
  from assms obtain v1 v2 v3 v4 v5 v6 v7 v8 v9 v10 v11 v12 v13 where
    c: "c = [(''business_name'', v1), (''category'', v2), (''street'', v3), (''city'', v4),
             (''state'', v5), (''postal_code'', v6), (''country'', v7), (''phone'', v8),
             (''email'', v9), (''website'', v10), (''source_url'', v11), (''confidence'', v12),
             (''notes'', v13)]"
    and f1: "thenE (optTrim (getProp r ''business_name'')) (\<lambda>t. js_or t JNull) = Inr v1"
    and f2: "thenE (optTrim (getProp r ''category'')) (\<lambda>t. js_or t JNull) = Inr v2"
    and f3: "thenE (optTrim (getProp r ''street'')) (\<lambda>t. js_or t JNull) = Inr v3"
    and f4: "thenE (optTrim (getProp r ''city'')) (\<lambda>t. js_or t JNull) = Inr v4"
    and f5: "thenE (optTrim (getProp r ''state'')) (\<lambda>t. js_or (mapStr toUpperCase t) JNull) = Inr v5"
    and f6: "thenE (optTrim (getProp r ''postal_code'')) (\<lambda>t. js_or t JNull) = Inr v6"
    and f7: "thenE (optTrim (getProp r ''country'')) (\<lambda>t. js_or (mapStr toUpperCase t) (JStr ''US'')) = Inr v7"
    and f8: "normalizePhone (getProp r ''phone'') = Inr v8"
    and f9: "thenE (optTrim (getProp r ''email'')) (\<lambda>t. js_or (mapStr toLowerCase t) JNull) = Inr v9"
    and f11: "thenE (optTrim (getProp r ''source_url'')) (\<lambda>t. js_or t JNull) = Inr v11"
    and f12: "v12 = (if isNumber (getProp r ''confidence'') then getProp r ''confidence'' else JNum (Fin 0.5))"
    and f13: "thenE (optTrim (getProp r ''notes'')) (\<lambda>t. js_or t JNull) = Inr v13"
    unfolding normalizeRecord_def
    by (elim literal_ConsE) auto
  have g: "getProp c ''business_name'' = v1" "getProp c ''category'' = v2"
    "getProp c ''street'' = v3" "getProp c ''city'' = v4" "getProp c ''state'' = v5"
    "getProp c ''postal_code'' = v6" "getProp c ''country'' = v7" "getProp c ''phone'' = v8"
    "getProp c ''email'' = v9" "getProp c ''website'' = v10" "getProp c ''source_url'' = v11"
    "getProp c ''confidence'' = v12" "getProp c ''notes'' = v13"
    by (simp_all add: c getProp_def)
  have n12: "isNumber v12" by (simp add: f12 isNumber_def)
  have first: "normalizeRecord rt c
           = Inr (AList.update ''website'' (normalizeUrl rt (getProp c ''website'')) c)"
    unfolding normalizeRecord_def g
    by (simp only: trimOrNull_stable [OF f1] trimOrNull_stable [OF f2] trimOrNull_stable [OF f3]
        trimOrNull_stable [OF f4] stateField_stable [OF f5] trimOrNull_stable [OF f6]
        countryField_stable [OF f7] normalizePhone_stable [OF f8] emailField_stable [OF f9]
        trimOrNull_stable [OF f11] trimOrNull_stable [OF f13] n12 if_True literal_Inr literal.simps
        sum.case c)
       simp
  moreover have "AList.update ''website'' (getProp c ''website'') c = c"
    by (simp add: c getProp_def)
  ultimately show ?thesis by simp
qed

lemmas eval_defs = value_defs string_defs normalizePhone_def normalizeUrl_def stripSlash_def
  stripWww_def basic_runtime_def URL_href_basic_def isAlpha_def pathChar_def

lemma normalize_example_google:
  "normalizeRecord basic_runtime example_google_row = Inr example_google_canonical"
  by (simp add: normalizeRecord_def example_google_row_def example_google_canonical_def eval_defs)

lemma normalize_blank: "normalizeRecord rt [] = Inr blank_record"
  by (simp add: normalizeRecord_def blank_record_def value_defs normalizePhone_def normalizeUrl_def)

text \<open>
  Claim C7 as the specification words it fails at a candidate with confidence 7: the
  canonical record keeps 7, outside \<open>[0,1]\<close>.
\<close>

theorem normalizeRecord_confidence_counterexample:
  "normalizeRecord basic_runtime [(''confidence'', JNum (Fin 7))]
     = Inr (AList.update ''confidence'' (JNum (Fin 7)) blank_record)
   \<and> getProp (AList.update ''confidence'' (JNum (Fin 7)) blank_record) ''confidence'' = JNum (Fin 7)
   \<and> \<not> inUnitInterval (JNum (Fin 7))"
  by (simp add: normalizeRecord_def blank_record_def value_defs normalizePhone_def
      normalizeUrl_def inUnitInterval_def)

text \<open>
  Claim C7 at a Google Places candidate with confidence 0.75.
\<close>

theorem normalizeRecord_confidence_witness:
  "normalizeRecord basic_runtime example_google_row = Inr example_google_canonical
   \<and> getProp example_google_canonical ''confidence'' = JNum (Fin 0.75)
   \<and> inUnitInterval (getProp example_google_canonical ''confidence'')"
  using normalizeRecord_confidence [of basic_runtime example_google_row example_google_canonical]
    normalize_example_google
  by (simp add: example_google_row_def getProp_def isNumber_def inUnitInterval_def)

text \<open>
  Claim C6 as the specification words it fails at the website
  \<^verbatim>\<open>www.www.example.com\<close>: each pass removes one \<^verbatim>\<open>www.\<close>, so the second
  normalization changes the website again.
\<close>

theorem normalizeRecord_again_counterexample:
  "normalizeRecord basic_runtime [(''website'', JStr ''www.www.example.com'')]
     = Inr (AList.update ''website'' (JStr ''https://www.example.com'') blank_record)
   \<and> normalizeRecord basic_runtime
         (AList.update ''website'' (JStr ''https://www.example.com'') blank_record)
     = Inr (AList.update ''website'' (JStr ''https://example.com'') blank_record)
   \<and> AList.update ''website'' (JStr ''https://example.com'') blank_record
     \<noteq> AList.update ''website'' (JStr ''https://www.example.com'') blank_record"
  by (simp add: normalizeRecord_def blank_record_def eval_defs)

text \<open>
  Claim C6 at a Google Places candidate without website: the second normalization is the
  identity.
\<close>

theorem normalizeRecord_again_witness:
  "normalizeRecord basic_runtime example_google_row = Inr example_google_canonical
   \<and> normalizeRecord basic_runtime example_google_canonical = Inr example_google_canonical"
  using normalizeRecord_again [of basic_runtime example_google_row example_google_canonical]
    normalize_example_google
  by (simp add: example_google_canonical_def getProp_def normalizeUrl_def truthy_def)

text \<open>
  Claim C10. A canonical record has exactly the thirteen canonical fields, in the order of
  the object literal, and nothing else: every other property of the candidate reads as
  undefined on it.
\<close>

theorem normalizeRecord_canonical_fields:
  assumes "normalizeRecord rt r = Inr c"
  shows "map fst c = canonical_fields
         \<and> length c = 13
         \<and> distinct (map fst c)
         \<and> (\<forall>k. k \<notin> set canonical_fields \<longrightarrow> getProp c k = JUndefined)"
proof -
  have keys: "map fst c = canonical_fields" by (rule normalizeRecord_keys [OF assms])
  have "length c = length canonical_fields" by (metis keys length_map)
  then have "length c = 13" by (simp add: canonical_fields_def)
  moreover have "distinct (map fst c)" unfolding keys by (simp add: canonical_fields_def)
  moreover have "getProp c k = JUndefined" if "k \<notin> set canonical_fields" for k
  proof -
    from that keys have "k \<notin> fst ` set c" by (metis list.set_map)
    then have "map_of c k = None" by (simp add: map_of_eq_None_iff)
    then show ?thesis by (simp add: getProp_def)
  qed
  ultimately show ?thesis using keys by simp
qed

text \<open>
  Claim C10 at a Google Places candidate: the five Google properties are gone.
\<close>

theorem normalizeRecord_canonical_fields_witness:
  "normalizeRecord basic_runtime example_google_row = Inr example_google_canonical
   \<and> map fst example_google_canonical = canonical_fields
   \<and> getProp example_google_row ''google_place_id'' = JStr ''abc''
   \<and> getProp example_google_canonical ''google_place_id'' = JUndefined
   \<and> getProp example_google_canonical ''google_rating'' = JUndefined
   \<and> getProp example_google_canonical ''google_reviews'' = JUndefined
   \<and> getProp example_google_canonical ''google_types'' = JUndefined
   \<and> getProp example_google_canonical ''is_operational'' = JUndefined"
  using normalizeRecord_canonical_fields [of basic_runtime example_google_row example_google_canonical]
    normalize_example_google
  by (simp add: canonical_fields_def example_google_row_def getProp_def)






text \<open>The values a canonical record holds.\<close>

lemma trimOrNull_value:
  "thenE (optTrim x) (\<lambda>t. js_or t JNull) = Inr v \<Longrightarrow> v = JNull \<or> (\<exists>s. s \<noteq> [] \<and> v = JStr s)"
  by (cases x) (auto simp: thenE_def optTrim_def js_or_def truthy_def split: if_splits)



lemma normalizeRecord_cases:
  assumes "normalizeRecord rt r = Inr c"
  obtains v1 v2 v3 v4 v5 v6 v7 v8 v9 v10 v11 v12 v13 where
    "c = [(''business_name'', v1), (''category'', v2), (''street'', v3), (''city'', v4),
          (''state'', v5), (''postal_code'', v6), (''country'', v7), (''phone'', v8),
          (''email'', v9), (''website'', v10), (''source_url'', v11), (''confidence'', v12),
          (''notes'', v13)]"
    "thenE (optTrim (getProp r ''business_name'')) (\<lambda>t. js_or t JNull) = Inr v1"
    "thenE (optTrim (getProp r ''category'')) (\<lambda>t. js_or t JNull) = Inr v2"
    "thenE (optTrim (getProp r ''street'')) (\<lambda>t. js_or t JNull) = Inr v3"
    "thenE (optTrim (getProp r ''city'')) (\<lambda>t. js_or t JNull) = Inr v4"
    "thenE (optTrim (getProp r ''state'')) (\<lambda>t. js_or (mapStr toUpperCase t) JNull) = Inr v5"
    "thenE (optTrim (getProp r ''postal_code'')) (\<lambda>t. js_or t JNull) = Inr v6"
    "thenE (optTrim (getProp r ''country'')) (\<lambda>t. js_or (mapStr toUpperCase t) (JStr ''US''))
       = Inr v7"
    "normalizePhone (getProp r ''phone'') = Inr v8"
    "thenE (optTrim (getProp r ''email'')) (\<lambda>t. js_or (mapStr toLowerCase t) JNull) = Inr v9"
    "v10 = normalizeUrl rt (getProp r ''website'')"
    "thenE (optTrim (getProp r ''source_url'')) (\<lambda>t. js_or t JNull) = Inr v11"
    "v12 = (if isNumber (getProp r ''confidence'') then getProp r ''confidence''
            else JNum (Fin 0.5))"
    "thenE (optTrim (getProp r ''notes'')) (\<lambda>t. js_or t JNull) = Inr v13"
  using assms unfolding normalizeRecord_def
  by (elim literal_ConsE) auto











lemmas merge_defs = mergeRecords_def js_gt_def primString_def ToNumber_def ToString_def
  mergeNotes_def assign_def fillMissing_def

lemma set_firstSeen: "set (firstSeen xs) = set xs"
  by (induction xs rule: firstSeen.induct) auto

lemma distinct_firstSeen: "distinct (firstSeen xs)"
  by (induction xs rule: firstSeen.induct) (auto simp: set_firstSeen)

lemma length_firstSeen: "length (firstSeen xs) = card (set xs)"
  by (metis distinct_card distinct_firstSeen set_firstSeen)

lemma dedupLoop_keyed:
  "mapE (\<lambda>(e, record). getDeduplicationKey rt e record) xs = Inr ks
   \<Longrightarrow> dedupLoop rt seen xs = Inr (dedupKeyed rt seen (zip ks (map snd xs)))"
proof (induction xs arbitrary: ks seen)
  case Nil
  then show ?case by simp
next
  case (Cons x xs)
  obtain e r where x: "x = (e, r)" by (cases x)
  from Cons.prems x obtain k ks' where k: "getDeduplicationKey rt e r = Inr k"
    and ks': "mapE (\<lambda>(e, record). getDeduplicationKey rt e record) xs = Inr ks'"
    and ks: "ks = k # ks'"
    by (auto split: sum.splits)
  show ?case using Cons.IH [OF ks'] by (simp add: x k ks split: option.splits)
qed

lemma keys_update: "fst ` set (AList.update k v al) = insert k (fst ` set al)"
proof -
  have "set (map fst (AList.update k v al)) = insert k (set (map fst al))"
    by (auto simp: update_keys)
  then show ?thesis by simp
qed

lemma dedupKeyed_keys:
  "map fst (dedupKeyed rt seen entries)
   = map fst seen @ firstSeen (filter (\<lambda>k. k \<notin> fst ` set seen) (map fst entries))"
proof (induction entries arbitrary: seen)
  case Nil
  then show ?case by simp
next
  case (Cons x entries)
  obtain k r where x: "x = (k, r)" by (cases x)
  show ?case
  proof (cases "map_of seen k")
    case None
    then have nk: "k \<notin> fst ` set seen" by (simp add: map_of_eq_None_iff)
    let ?seen' = "AList.update k r seen"
    have p: "(\<lambda>ka. ka \<notin> fst ` set ?seen') = (\<lambda>ka. ka \<notin> fst ` set seen \<and> ka \<noteq> k)"
      by (auto simp: keys_update)
    have "map fst (dedupKeyed rt seen (x # entries)) = map fst (dedupKeyed rt ?seen' entries)"
      by (simp add: x None)
    also have "\<dots> = map fst ?seen' @ firstSeen (filter (\<lambda>ka. ka \<notin> fst ` set ?seen') (map fst entries))"
      by (rule Cons.IH)
    also have "map fst ?seen' = map fst seen @ [k]"
      using nk by (simp add: update_keys)
    also have "filter (\<lambda>ka. ka \<notin> fst ` set ?seen') (map fst entries)
        = filter (\<lambda>y. y \<noteq> k) (filter (\<lambda>ka. ka \<notin> fst ` set seen) (map fst entries))"
      unfolding p by simp
    finally show ?thesis using nk by (simp add: x)
  next
    case (Some v)
    then have "k \<in> fst ` set seen" by (metis map_of_eq_None_iff option.distinct(1))
    with Some show ?thesis by (simp add: x Cons.IH update_keys keys_update insert_absorb)
  qed
qed

lemma groupOf_nonempty: "k \<in> fst ` set entries \<Longrightarrow> groupOf k entries \<noteq> []"
  by (auto simp: groupOf_def filter_empty_conv)

lemma groupOf_Cons:
  "groupOf k ((k', r) # entries) = (if k' = k then r # groupOf k entries else groupOf k entries)"
  by (simp add: groupOf_def)

lemma dedupKeyed_values:
  "map_of (dedupKeyed rt seen entries) k
   = (case map_of seen k of
        Some v \<Rightarrow> Some (foldl (mergeRecords rt) v (groupOf k entries))
      | None \<Rightarrow> (case groupOf k entries of [] \<Rightarrow> None
                  | r # rs \<Rightarrow> Some (foldl (mergeRecords rt) r rs)))"
proof (induction entries arbitrary: seen)
  case Nil
  then show ?case by (simp add: groupOf_def split: option.splits)
next
  case (Cons x entries)
  obtain k' r where x: "x = (k', r)" by (cases x)
  show ?case
    by (cases "map_of seen k'")
       (auto simp: x Cons.IH update_conv' groupOf_Cons split: option.splits)
qed

lemma map_of_distinct_values:
  "distinct (map fst al) \<Longrightarrow> map snd al = map (\<lambda>k. the (map_of al k)) (map fst al)"
proof (induction al)
  case Nil
  then show ?case by simp
next
  case (Cons a al)
  obtain k v where a: "a = (k, v)" by (cases a)
  from Cons.prems a have "k \<notin> fst ` set al" and d: "distinct (map fst al)" by auto
  then have "map (\<lambda>k'. the (map_of ((k, v) # al) k')) (map fst al)
      = map (\<lambda>k'. the (map_of al k')) (map fst al)"
    by (intro map_cong) auto
  with Cons.IH [OF d] show ?case by (simp add: a)
qed

lemma dedupKeyed_result:
  "map snd (dedupKeyed rt [] entries)
   = map (\<lambda>k. mergeAll rt (groupOf k entries)) (firstSeen (map fst entries))"
proof -
  let ?res = "dedupKeyed rt [] entries"
  have keys: "map fst ?res = firstSeen (map fst entries)"
    using dedupKeyed_keys [of rt "[]" entries] by simp
  then have "distinct (map fst ?res)" by (simp add: distinct_firstSeen)
  then have "map snd ?res = map (\<lambda>k. the (map_of ?res k)) (firstSeen (map fst entries))"
    using map_of_distinct_values keys by metis
  also have "\<dots> = map (\<lambda>k. mergeAll rt (groupOf k entries)) (firstSeen (map fst entries))"
  proof (intro map_cong refl)
    fix k assume "k \<in> set (firstSeen (map fst entries))"
    then have "groupOf k entries \<noteq> []" by (simp add: set_firstSeen groupOf_nonempty)
    then show "the (map_of ?res k) = mergeAll rt (groupOf k entries)"
      by (simp add: dedupKeyed_values mergeAll_def split: list.splits)
  qed
  finally show ?thesis .
qed

lemma canonical_name:
  assumes "normalizeRecord rt raw = Inr r"
  shows "getProp r ''business_name'' = JNull \<or> (\<exists>s. s \<noteq> [] \<and> getProp r ''business_name'' = JStr s)"
  using assms by (elim normalizeRecord_cases) (simp add: getProp_def trimOrNull_value)

lemma getDeduplicationKey_total:
  assumes "normalizeRecord rt raw = Inr r"
  shows "\<exists>k. getDeduplicationKey rt e r = Inr k"
  using canonical_name [OF assms]
  by (auto simp: getDeduplicationKey_def Let_def thenE_def callLower_def optLower_def truthy_def)

lemma mapE_total: "\<forall>x\<in>set xs. \<exists>y. f x = Inr y \<Longrightarrow> \<exists>ys. mapE f xs = Inr ys"
  by (induction xs) auto

lemma mapE_length: "mapE f xs = Inr ys \<Longrightarrow> length ys = length xs"
  by (induction xs arbitrary: ys) (auto split: sum.splits)

lemma readings_records: "map snd (readings clock records) = records"
  by (simp add: readings_def)

lemma readings_member: "(e, r) \<in> set (readings clock records) \<Longrightarrow> r \<in> set records"
  by (auto simp: readings_def dest: set_zip_rightD)

lemma length_readings: "length (readings clock records) = length records"
  by (simp add: readings_def)

lemma recordKeys_total:
  assumes "\<forall>r\<in>set records. \<exists>raw. normalizeRecord rt raw = Inr r"
  shows "\<exists>keys. recordKeys rt clock records = Inr keys \<and> length keys = length records"
proof -
  let ?f = "\<lambda>(e, record). getDeduplicationKey rt e record"
  have "\<forall>x\<in>set (readings clock records). \<exists>k. ?f x = Inr k"
    using assms by (auto dest!: readings_member intro: getDeduplicationKey_total)
  then obtain keys where keys: "mapE ?f (readings clock records) = Inr keys"
    using mapE_total by blast
  then have "length keys = length records"
    by (simp add: mapE_length length_readings)
  with keys show ?thesis by (simp add: recordKeys_def)
qed

lemma deduplicateRecords_keyed:
  assumes "recordKeys rt clock records = Inr keys"
  shows "deduplicateRecords rt clock records
           = Inr (map snd (dedupKeyed rt [] (zip keys records)))"
  using dedupLoop_keyed [OF assms [unfolded recordKeys_def], of "[]"]
  by (simp add: deduplicateRecords_def readings_records thenE_def)

text \<open>
  Claim C8. On a non-empty sequence of canonical records the key computation never throws,
  and the engine returns one record per distinct key, in the order in which the keys are
  first seen: the record of a key is the first record with that key, merged in arrival
  order with the later ones. The number of records returned is the number \<open>K\<close> of distinct
  keys, and \<open>1 \<le> K \<le> N\<close>.
\<close>

theorem deduplicateRecords_one_per_key:
  assumes "records \<noteq> []"
    and "\<forall>r\<in>set records. \<exists>raw. normalizeRecord rt raw = Inr r"
  shows "\<exists>keys out.
           recordKeys rt clock records = Inr keys
         \<and> length keys = length records
         \<and> deduplicateRecords rt clock records = Inr out
         \<and> out = map (\<lambda>k. mergeAll rt (groupOf k (zip keys records))) (firstSeen keys)
         \<and> length out = card (set keys)
         \<and> 1 \<le> card (set keys)
         \<and> card (set keys) \<le> length records"
proof -
  from recordKeys_total [OF assms(2)] obtain keys
    where keys: "recordKeys rt clock records = Inr keys" and len: "length keys = length records"
    by blast
  let ?entries = "zip keys records"
  have fst: "map fst ?entries = keys" using len by simp
  have out: "deduplicateRecords rt clock records
      = Inr (map (\<lambda>k. mergeAll rt (groupOf k ?entries)) (firstSeen keys))"
    by (simp add: deduplicateRecords_keyed [OF keys] dedupKeyed_result fst)
  from assms(1) len have "keys \<noteq> []" by auto
  then have "set keys \<noteq> {}" by simp
  then have "1 \<le> card (set keys)" by (simp add: Suc_le_eq card_gt_0_iff)
  moreover have "card (set keys) \<le> length records" using card_length [of keys] len by simp
  ultimately show ?thesis
    using keys len out by (simp add: length_firstSeen)
qed

lemma normalize_contact_first:
  "normalizeRecord basic_runtime
       [(''business_name'', JStr ''ABC Realty''), (''postal_code'', JStr ''33602''),
        (''confidence'', JNum (Fin 0.9))]
     = Inr (contact ''ABC Realty'' ''33602'' JNull 0.9)"
  by (simp add: normalizeRecord_def contact_def eval_defs)

lemma normalize_contact_second:
  "normalizeRecord basic_runtime
       [(''business_name'', JStr ''Bay Plumbing''), (''postal_code'', JStr ''33701''),
        (''confidence'', JNum (Fin 0.7))]
     = Inr (contact ''Bay Plumbing'' ''33701'' JNull 0.7)"
  by (simp add: normalizeRecord_def contact_def eval_defs)

lemma normalize_contact_third:
  "normalizeRecord basic_runtime
       [(''business_name'', JStr ''ABC Realty''), (''postal_code'', JStr ''33602''),
        (''email'', JStr ''Info@ABC.com''), (''confidence'', JNum (Fin 0.4))]
     = Inr (contact ''ABC Realty'' ''33602'' (JStr ''info@abc.com'') 0.4)"
  by (simp add: normalizeRecord_def contact_def eval_defs)

lemma example_contacts_canonical:
  "\<forall>r\<in>set example_contacts. \<exists>raw. normalizeRecord basic_runtime raw = Inr r"
  unfolding example_contacts_def
  using normalize_contact_first normalize_contact_second normalize_contact_third
  by (simp only: list.set ball_simps) blast

lemmas key_defs = getDeduplicationKey_def callLower_def optLower_def ToString_def

lemma example_contacts_keys:
  "recordKeys basic_runtime (\<lambda>i. (0, 0)) example_contacts
     = Inr [''name-zip:abc realty:33602'', ''name-zip:bay plumbing:33701'',
            ''name-zip:abc realty:33602'']"
  by (simp add: recordKeys_def readings_def example_contacts_def contact_def upt_rec
      key_defs value_defs string_defs)

lemma example_contacts_deduplicated:
  "deduplicateRecords basic_runtime (\<lambda>i. (0, 0)) example_contacts
     = Inr [AList.update ''notes'' (JStr [])
              (contact ''ABC Realty'' ''33602'' (JStr ''info@abc.com'') 0.9),
            contact ''Bay Plumbing'' ''33701'' JNull 0.7]"
  by (simp add: deduplicateRecords_def readings_def example_contacts_def contact_def upt_rec
      key_defs value_defs string_defs merge_defs)

text \<open>
  Claim C8 at three canonical records with two distinct keys: the first and the third are
  merged into the first position.
\<close>

theorem deduplicateRecords_one_per_key_witness:
  "example_contacts \<noteq> []
   \<and> recordKeys basic_runtime (\<lambda>i. (0, 0)) example_contacts
       = Inr [''name-zip:abc realty:33602'', ''name-zip:bay plumbing:33701'',
              ''name-zip:abc realty:33602'']
   \<and> deduplicateRecords basic_runtime (\<lambda>i. (0, 0)) example_contacts
       = Inr [AList.update ''notes'' (JStr [])
                (contact ''ABC Realty'' ''33602'' (JStr ''info@abc.com'') 0.9),
              contact ''Bay Plumbing'' ''33701'' JNull 0.7]
   \<and> [AList.update ''notes'' (JStr [])
         (contact ''ABC Realty'' ''33602'' (JStr ''info@abc.com'') 0.9),
       contact ''Bay Plumbing'' ''33701'' JNull 0.7]
       = map (\<lambda>k. mergeAll basic_runtime
                     (groupOf k (zip [''name-zip:abc realty:33602'',
                                      ''name-zip:bay plumbing:33701'',
                                      ''name-zip:abc realty:33602''] example_contacts)))
           (firstSeen [''name-zip:abc realty:33602'', ''name-zip:bay plumbing:33701'',
                       ''name-zip:abc realty:33602''])
   \<and> card (set [''name-zip:abc realty:33602'', ''name-zip:bay plumbing:33701'',
                 ''name-zip:abc realty:33602'']) = 2
   \<and> length example_contacts = 3"
proof -
  let ?keys = "[''name-zip:abc realty:33602'', ''name-zip:bay plumbing:33701'',
                ''name-zip:abc realty:33602'']"
  let ?out = "[AList.update ''notes'' (JStr [])
                 (contact ''ABC Realty'' ''33602'' (JStr ''info@abc.com'') 0.9),
               contact ''Bay Plumbing'' ''33701'' JNull 0.7]"
  have ne: "example_contacts \<noteq> []" by (simp add: example_contacts_def)
  from deduplicateRecords_one_per_key [OF ne example_contacts_canonical, of "\<lambda>i. (0, 0)"]
  obtain keys out where k: "recordKeys basic_runtime (\<lambda>i. (0, 0)) example_contacts = Inr keys"
    and d: "deduplicateRecords basic_runtime (\<lambda>i. (0, 0)) example_contacts = Inr out"
    and m: "out = map (\<lambda>k. mergeAll basic_runtime (groupOf k (zip keys example_contacts)))
                 (firstSeen keys)"
    and c: "length out = card (set keys)"
    by blast
  from k have keys: "keys = ?keys" by (simp add: example_contacts_keys)
  from d have out: "out = ?out" by (simp add: example_contacts_deduplicated)
  from c have "card (set ?keys) = 2" unfolding keys out by simp
  moreover from m have "?out = map (\<lambda>k. mergeAll basic_runtime
      (groupOf k (zip ?keys example_contacts))) (firstSeen ?keys)"
    unfolding keys out .
  moreover have "length example_contacts = 3" by (simp add: example_contacts_def)
  ultimately show ?thesis
    using ne example_contacts_keys example_contacts_deduplicated by blast
qed

lemma sortInsert_insort:
  assumes "\<exists>v. confidenceKey rt x = Fin v" and "\<forall>y\<in>set ys. \<exists>v. confidenceKey rt y = Fin v"
  shows "sortInsert (compareConfidence rt) x ys = insort_key (\<lambda>r. - confidenceValue rt r) x ys"
  using assms
proof (induction ys)
  case Nil
  then show ?case by simp
next
  case (Cons y ys)
  from Cons.prems obtain a b where "confidenceKey rt x = Fin a" "confidenceKey rt y = Fin b"
    by auto
  then have "num_lt (Fin 0) (compareConfidence rt x y)
      \<longleftrightarrow> \<not> (- confidenceValue rt x \<le> - confidenceValue rt y)"
    by (auto simp: compareConfidence_def confidenceKey_def confidenceValue_def)
  with Cons show ?case by simp
qed

lemma sortBy_sort_key:
  assumes "\<forall>r\<in>set rows. \<exists>v. confidenceKey rt r = Fin v"
  shows "sortBy (compareConfidence rt) rows = sort_key (\<lambda>r. - confidenceValue rt r) rows"
  using assms
proof (induction rows)
  case Nil
  then show ?case by (simp add: sortBy_def)
next
  case (Cons r rows)
  then have ih: "foldr (sortInsert (compareConfidence rt)) rows []
      = sort_key (\<lambda>r. - confidenceValue rt r) rows"
    by (simp add: sortBy_def)
  have "\<forall>y\<in>set (sort_key (\<lambda>r. - confidenceValue rt r) rows). \<exists>v. confidenceKey rt y = Fin v"
    using Cons.prems by simp
  with Cons.prems show ?case
    by (simp add: sortBy_def ih sortInsert_insort)
qed

lemma update_member:
  "(k', v') \<in> set (AList.update k v al) \<Longrightarrow> (k', v') = (k, v) \<or> (k', v') \<in> set al"
  by (induction al) (auto split: if_splits)

lemma update_keys_same: "k \<in> fst ` set al \<Longrightarrow> map fst (AList.update k v al) = map fst al"
  by (simp add: update_keys)

lemma assign_keys:
  "fst ` set source \<subseteq> fst ` set target \<Longrightarrow> map fst (assign target source) = map fst target"
  unfolding assign_def
proof (induction source arbitrary: target)
  case Nil
  then show ?case by simp
next
  case (Cons a source)
  obtain k v where a: "a = (k, v)" by (cases a)
  from Cons.prems a have k: "k \<in> fst ` set target" by auto
  then have same: "map fst (AList.update k v target) = map fst target" by (rule update_keys_same)
  then have "fst ` set (AList.update k v target) = fst ` set target" by (simp add: keys_update insert_absorb k)
  with Cons.prems a have "fst ` set source \<subseteq> fst ` set (AList.update k v target)" by auto
  from Cons.IH [OF this] same show ?case by (simp add: a)
qed

lemma fill_keys:
  "set ks \<subseteq> fst ` set m
   \<Longrightarrow> map fst (foldl (\<lambda>merged key.
              if \<not> truthy (getProp merged key) \<and> truthy (getProp incoming key)
              then AList.update key (getProp incoming key) merged else merged) m ks) = map fst m"
proof (induction ks arbitrary: m)
  case Nil
  then show ?case by simp
next
  case (Cons k ks)
  let ?m' = "if \<not> truthy (getProp m k) \<and> truthy (getProp incoming k)
             then AList.update k (getProp incoming k) m else m"
  from Cons.prems have k: "k \<in> fst ` set m" by simp
  then have same: "map fst ?m' = map fst m" by (simp add: update_keys_same)
  then have "fst ` set ?m' = fst ` set m" by (metis list.set_map)
  with Cons.prems have "set ks \<subseteq> fst ` set ?m'" by simp
  from Cons.IH [OF this] same show ?case by simp
qed

lemma mergeRecords_fields:
  assumes "map fst existing = canonical_fields" and "map fst incoming = canonical_fields"
  shows "map fst (mergeRecords rt existing incoming) = canonical_fields"
proof -
  have keys: "fst ` set incoming = fst ` set existing"
    using assms by (metis list.set_map)
  have nt: "''notes'' \<in> set canonical_fields" by (simp add: canonical_fields_def)
  have sub: "set (map fst incoming) \<subseteq> fst ` set existing" using keys by simp
  have "map fst (assign existing incoming) = map fst existing"
    by (rule assign_keys) (simp add: keys)
  then have a: "map fst (assign existing incoming) = canonical_fields" by (simp add: assms)
  have "map fst (fillMissing existing incoming) = map fst existing"
    unfolding fillMissing_def by (rule fill_keys [OF sub])
  then have f: "map fst (fillMissing existing incoming) = canonical_fields" by (simp add: assms)
  from a nt have "''notes'' \<in> fst ` set (assign existing incoming)" by (metis list.set_map)
  moreover from f nt have "''notes'' \<in> fst ` set (fillMissing existing incoming)"
    by (metis list.set_map)
  ultimately show ?thesis by (simp add: mergeRecords_def update_keys_same a f)
qed





lemma dedupKeyed_fields:
  assumes "\<forall>(k, v)\<in>set seen. map fst v = canonical_fields"
    and "\<forall>(k, r)\<in>set entries. map fst r = canonical_fields"
  shows "\<forall>(k, v)\<in>set (dedupKeyed rt seen entries). map fst v = canonical_fields"
  using assms
proof (induction entries arbitrary: seen)
  case Nil
  then show ?case by simp
next
  case (Cons x entries)
  obtain k r where x: "x = (k, r)" by (cases x)
  from Cons.prems x have r: "map fst r = canonical_fields"
    and rest: "\<forall>(k, r)\<in>set entries. map fst r = canonical_fields" by auto
  show ?case
  proof (cases "map_of seen k")
    case None
    have "\<forall>(k', v')\<in>set (AList.update k r seen). map fst v' = canonical_fields"
      using Cons.prems(1) r by (auto dest: update_member)
    from Cons.IH [OF this rest] None show ?thesis by (simp add: x)
  next
    case (Some existing)
    then have "(k, existing) \<in> set seen" by (rule map_of_SomeD)
    with Cons.prems(1) have "map fst existing = canonical_fields" by auto
    then have m: "map fst (mergeRecords rt existing r) = canonical_fields"
      using r by (rule mergeRecords_fields)
    have "\<forall>(k', v')\<in>set (AList.update k (mergeRecords rt existing r) seen).
            map fst v' = canonical_fields"
      using Cons.prems(1) m by (auto dest: update_member)
    from Cons.IH [OF this rest] Some show ?thesis by (simp add: x)
  qed
qed

lemma mapE_members: "mapE f xs = Inr ys \<Longrightarrow> \<forall>y\<in>set ys. \<exists>x. f x = Inr y"
  by (induction xs arbitrary: ys) (auto split: sum.splits)

lemma normalizeRow_canonical:
  "normalizeRow rt row = Inr r \<Longrightarrow> \<exists>raw. normalizeRecord rt raw = Inr r"
  by (cases row) (auto simp: normalizeRow_def)

lemma deduplicateRecords_canonical:
  assumes "\<forall>r\<in>set records. \<exists>raw. normalizeRecord rt raw = Inr r"
  shows "\<exists>out. deduplicateRecords rt clock records = Inr out
           \<and> (\<forall>row\<in>set out. map fst row = canonical_fields)
           \<and> length out \<le> length records"
proof -
  from recordKeys_total [OF assms] obtain keys
    where keys: "recordKeys rt clock records = Inr keys" and len: "length keys = length records"
    by blast
  let ?entries = "zip keys records"
  let ?out = "map snd (dedupKeyed rt [] ?entries)"
  have "\<forall>(k, r)\<in>set ?entries. map fst r = canonical_fields"
    using assms by (auto dest!: set_zip_rightD intro: normalizeRecord_keys)
  then have "\<forall>(k, v)\<in>set (dedupKeyed rt [] ?entries). map fst v = canonical_fields"
    by (intro dedupKeyed_fields) simp_all
  then have fields: "\<forall>row\<in>set ?out. map fst row = canonical_fields" by auto
  have "length ?out = card (set keys)"
    using len by (simp add: dedupKeyed_result length_firstSeen)
  then have "length ?out \<le> length records" using card_length [of keys] len by simp
  with fields deduplicateRecords_keyed [OF keys] show ?thesis by simp
qed

lemma collect_candidates:
  "collectFromAllSources rt clock stamp apiKey google category geography maxResults
   = thenE (deduplicateRecords rt clock (candidates apiKey google))
       (\<lambda>deduplicated.
          let sorted = slice0 (sortBy (compareConfidence rt) deduplicated) maxResults in
          \<lparr>c_category = category,
           c_geography = geography,
           c_total_found = length sorted,
           c_generated_at = fst stamp,
           c_sources_used = (if candidates apiKey google = [] then [] else [''Google Places'']),
           c_execution_time_ms = Some (snd stamp),
           c_errors = (if apiKey then (case google of Inl error \<Rightarrow> Some [(''Google Places'', error)]
                                       | Inr _ \<Rightarrow> None) else None),
           c_error = None,
           c_rows = sorted\<rparr>)"
  by (cases google) (auto simp: collectFromAllSources_def candidates_def)

text \<open>
  Claim C1, as the code has it. Neither orchestrator runs the whole pipeline.
  \<^verbatim>\<open>collectFromAllSources\<close> deduplicates the candidates of its source without normalizing
  them, sorts them by descending confidence with ties in their order (the stable
  \<open>sort_key\<close> on the negated confidence, when every confidence is a finite number), and
  truncates to \<^verbatim>\<open>maxResults\<close>, when that is not negative. \<^verbatim>\<open>orchestrate\<close> normalizes
  every row and deduplicates, so every row it returns has the canonical fields; it neither
  sorts nor truncates (\<^verbatim>\<open>maxResults\<close> only goes into the prompt, which is why it is no
  argument of the model).
\<close>

theorem orchestrators_pipeline:
  assumes mx: "0 \<le> maxResults"
    and dd: "deduplicateRecords rt clock (candidates apiKey google) = Inr deduplicated"
    and fin: "\<forall>r\<in>set deduplicated. \<exists>v. confidenceKey rt r = Fin v"
    and llm: "llm = Inr result"
    and rows: "p_rows result = Some raw"
    and meta: "p_meta result = Some meta"
    and norm: "mapE (normalizeRow rt) raw = Inr normalized"
  shows "(\<exists>res. collectFromAllSources rt clock stamp apiKey google category geography maxResults
                  = Inr res
             \<and> c_rows res
                  = take (nat maxResults) (sort_key (\<lambda>r. - confidenceValue rt r) deduplicated)
             \<and> length (c_rows res) \<le> nat maxResults
             \<and> c_total_found res = length (c_rows res))
       \<and> (\<exists>res out. orchestrate rt clock stamp' category' geography' llm = Inr res
             \<and> deduplicateRecords rt clock normalized = Inr out
             \<and> o_rows res = Some out
             \<and> (\<forall>row\<in>set out. map fst row = canonical_fields)
             \<and> length out \<le> length normalized)"
proof
  from mx dd show "\<exists>res. collectFromAllSources rt clock stamp apiKey google category geography
                          maxResults = Inr res
             \<and> c_rows res
                  = take (nat maxResults) (sort_key (\<lambda>r. - confidenceValue rt r) deduplicated)
             \<and> length (c_rows res) \<le> nat maxResults
             \<and> c_total_found res = length (c_rows res)"
    by (simp add: collect_candidates thenE_def slice0_def Let_def sortBy_sort_key [OF fin])
next
  have "\<forall>r\<in>set normalized. \<exists>raw. normalizeRecord rt raw = Inr r"
    using mapE_members [OF norm] normalizeRow_canonical by blast
  from deduplicateRecords_canonical [OF this] obtain out
    where out: "deduplicateRecords rt clock normalized = Inr out"
      and fields: "\<forall>row\<in>set out. map fst row = canonical_fields"
      and len: "length out \<le> length normalized"
    by blast
  have "processRows rt clock result
      = Inr (Some (AList.update ''duplicates_removed''
                     (JNum (Fin (real (length normalized) - real (length out))))
                  (AList.update ''deduplication_applied'' (JBool True)
                  (AList.update ''total_found'' (num (length out)) meta))),
             Some out)"
    by (simp add: processRows_def rows meta norm out bindE_def)
  then have "\<exists>res. orchestrate rt clock stamp' category' geography' llm = Inr res
      \<and> o_rows res = Some out"
    by (simp add: orchestrate_def llm bindE_def)
  with out fields len
  show "\<exists>res out. orchestrate rt clock stamp' category' geography' llm = Inr res
             \<and> deduplicateRecords rt clock normalized = Inr out
             \<and> o_rows res = Some out
             \<and> (\<forall>row\<in>set out. map fst row = canonical_fields)
             \<and> length out \<le> length normalized"
    by blast
qed

lemma example_google_deduplicated:
  "deduplicateRecords basic_runtime (\<lambda>i. (0, 0)) [example_google_row, example_google_second]
     = Inr [example_google_row, example_google_second]"
  by (simp add: deduplicateRecords_def readings_def example_google_row_def
      example_google_second_def upt_rec key_defs value_defs string_defs)

lemma example_google_finite:
  "\<forall>r\<in>set [example_google_row, example_google_second]. \<exists>v. confidenceKey basic_runtime r = Fin v"
proof -
  have "confidenceKey basic_runtime example_google_row = Fin 0.75"
    by (simp add: confidenceKey_def ToNumber_def example_google_row_def value_defs)
  moreover have "confidenceKey basic_runtime example_google_second = Fin 0.9"
    by (simp add: confidenceKey_def ToNumber_def example_google_second_def value_defs)
  ultimately show ?thesis by (simp only: list.set ball_simps) blast
qed

lemma example_answer_normalized:
  "mapE (normalizeRow basic_runtime) example_answer_raw = Inr example_answer_rows"
  by (simp add: normalizeRow_def normalizeRecord_def example_answer_raw_def
      example_answer_rows_def eval_defs)

lemma example_sorted:
  "sortBy (compareConfidence basic_runtime) [example_google_row, example_google_second]
     = [example_google_second, example_google_row]"
proof -
  have "compareConfidence basic_runtime example_google_row example_google_second = Fin 0.15"
    by (simp add: compareConfidence_def ToNumber_def example_google_row_def
        example_google_second_def value_defs)
  then show ?thesis by (simp add: sortBy_def)
qed

lemma example_collect:
  "collectFromAllSources basic_runtime (\<lambda>i. (0, 0)) (''2025-01-01T00:00:00.000Z'', 12)
       True (Inr [example_google_row, example_google_second]) ''Real Estate Agent'' ''Tampa, FL'' 1
     = Inr \<lparr>c_category = ''Real Estate Agent'',
            c_geography = ''Tampa, FL'',
            c_total_found = 1,
            c_generated_at = ''2025-01-01T00:00:00.000Z'',
            c_sources_used = [''Google Places''],
            c_execution_time_ms = Some 12,
            c_errors = None,
            c_error = None,
            c_rows = [example_google_second]\<rparr>"
  by (simp add: collect_candidates candidates_def example_google_deduplicated example_sorted
      thenE_def slice0_def)

lemma example_answer_deduplicated:
  "deduplicateRecords basic_runtime (\<lambda>i. (0, 0)) example_answer_rows = Inr [example_answer_merged]"
  by (simp add: example_answer_rows_def example_answer_merged_def deduplicateRecords_def
      readings_def upt_rec key_defs value_defs string_defs merge_defs)

lemma length_example_answer_rows: "length example_answer_rows = 2"
  by (simp add: example_answer_rows_def)

lemma example_orchestrate:
  "orchestrate basic_runtime (\<lambda>i. (0, 0)) (''2025-01-01T00:00:00.000Z'', 12)
       (JStr ''Real Estate Agent'') (JStr ''Tampa, FL'') (Inr example_answer)
     = Inr \<lparr>o_meta = [(''category'', JStr ''Real Estate Agent''), (''total_found'', num 1),
                       (''deduplication_applied'', JBool True),
                       (''duplicates_removed'', JNum (Fin 1)),
                       (''execution_time_ms'', JNum (Fin 12)),
                       (''orchestrator_version'', JStr ''1.0.0'')],
            o_error = None,
            o_rows = Some [example_answer_merged]\<rparr>"
  by (simp add: orchestrate_def processRows_def example_answer_def example_answer_normalized
      example_answer_deduplicated bindE_def length_example_answer_rows num_def)

text \<open>
  Claim C1 at two Google Places candidates with \<^verbatim>\<open>maxResults\<close> 1, and at the two rows
  of the end-to-end scenario of the specification, which \<^verbatim>\<open>orchestrate\<close> merges into
  one.
\<close>

theorem orchestrators_pipeline_witness:
  "collectFromAllSources basic_runtime (\<lambda>i. (0, 0)) (''2025-01-01T00:00:00.000Z'', 12)
       True (Inr [example_google_row, example_google_second]) ''Real Estate Agent''
       ''Tampa, FL'' 1
     = Inr \<lparr>c_category = ''Real Estate Agent'',
            c_geography = ''Tampa, FL'',
            c_total_found = 1,
            c_generated_at = ''2025-01-01T00:00:00.000Z'',
            c_sources_used = [''Google Places''],
            c_execution_time_ms = Some 12,
            c_errors = None,
            c_error = None,
            c_rows = [example_google_second]\<rparr>
   \<and> [example_google_second]
     = take (nat 1) (sort_key (\<lambda>r. - confidenceValue basic_runtime r)
                       [example_google_row, example_google_second])
   \<and> orchestrate basic_runtime (\<lambda>i. (0, 0)) (''2025-01-01T00:00:00.000Z'', 12)
         (JStr ''Real Estate Agent'') (JStr ''Tampa, FL'') (Inr example_answer)
     = Inr \<lparr>o_meta = [(''category'', JStr ''Real Estate Agent''), (''total_found'', num 1),
                       (''deduplication_applied'', JBool True),
                       (''duplicates_removed'', JNum (Fin 1)),
                       (''execution_time_ms'', JNum (Fin 12)),
                       (''orchestrator_version'', JStr ''1.0.0'')],
            o_error = None,
            o_rows = Some [example_answer_merged]\<rparr>
   \<and> deduplicateRecords basic_runtime (\<lambda>i. (0, 0)) example_answer_rows
     = Inr [example_answer_merged]
   \<and> map fst example_answer_merged = canonical_fields"
proof -
  have h1: "(0::int) \<le> 1" by simp
  have h2: "deduplicateRecords basic_runtime (\<lambda>i. (0, 0))
         (candidates True (Inr [example_google_row, example_google_second]))
       = Inr [example_google_row, example_google_second]"
    by (simp add: candidates_def example_google_deduplicated)
  have h5: "p_rows example_answer = Some example_answer_raw"
    by (simp add: example_answer_def)
  have h6: "p_meta example_answer = Some [(''category'', JStr ''Real Estate Agent'')]"
    by (simp add: example_answer_def)
  from orchestrators_pipeline [OF h1 h2 example_google_finite refl h5 h6 example_answer_normalized,
      of "(''2025-01-01T00:00:00.000Z'', 12)" "''Real Estate Agent''" "''Tampa, FL''"
         "(''2025-01-01T00:00:00.000Z'', 12)" "JStr ''Real Estate Agent''" "JStr ''Tampa, FL''"]
  obtain res res' out where
    "collectFromAllSources basic_runtime (\<lambda>i. (0, 0)) (''2025-01-01T00:00:00.000Z'', 12)
       True (Inr [example_google_row, example_google_second]) ''Real Estate Agent''
       ''Tampa, FL'' 1 = Inr res"
    and "c_rows res = take (nat 1) (sort_key (\<lambda>r. - confidenceValue basic_runtime r)
                       [example_google_row, example_google_second])"
    and "orchestrate basic_runtime (\<lambda>i. (0, 0)) (''2025-01-01T00:00:00.000Z'', 12)
         (JStr ''Real Estate Agent'') (JStr ''Tampa, FL'') (Inr example_answer) = Inr res'"
    and "deduplicateRecords basic_runtime (\<lambda>i. (0, 0)) example_answer_rows = Inr out"
    and "o_rows res' = Some out"
    and "\<forall>row\<in>set out. map fst row = canonical_fields"
    by blast
  then show ?thesis
    by (auto simp: example_collect example_orchestrate)
qed

text \<open>
  Claim C1 as the specification words it fails at one Google Places candidate:
  \<^verbatim>\<open>collectFromAllSources\<close> emits the candidate as it came, with its Google properties,
  country \<^verbatim>\<open>USA\<close> and the phone as written, not its canonical record.
\<close>

theorem orchestrators_pipeline_counterexample:
  "collectFromAllSources basic_runtime (\<lambda>i. (0, 0)) (''2025-01-01T00:00:00.000Z'', 12)
       True (Inr [example_google_row]) ''Real Estate Agent'' ''Tampa, FL'' 10
     = Inr \<lparr>c_category = ''Real Estate Agent'',
            c_geography = ''Tampa, FL'',
            c_total_found = 1,
            c_generated_at = ''2025-01-01T00:00:00.000Z'',
            c_sources_used = [''Google Places''],
            c_execution_time_ms = Some 12,
            c_errors = None,
            c_error = None,
            c_rows = [example_google_row]\<rparr>
   \<and> normalizeRecord basic_runtime example_google_row = Inr example_google_canonical
   \<and> example_google_row \<noteq> example_google_canonical
   \<and> map fst example_google_row \<noteq> canonical_fields"
proof -
  have d: "deduplicateRecords basic_runtime (\<lambda>i. (0, 0)) [example_google_row]
      = Inr [example_google_row]"
    by (simp add: deduplicateRecords_def readings_def example_google_row_def upt_rec key_defs
        value_defs string_defs)
  have "collectFromAllSources basic_runtime (\<lambda>i. (0, 0)) (''2025-01-01T00:00:00.000Z'', 12)
       True (Inr [example_google_row]) ''Real Estate Agent'' ''Tampa, FL'' 10
     = Inr \<lparr>c_category = ''Real Estate Agent'',
            c_geography = ''Tampa, FL'',
            c_total_found = 1,
            c_generated_at = ''2025-01-01T00:00:00.000Z'',
            c_sources_used = [''Google Places''],
            c_execution_time_ms = Some 12,
            c_errors = None,
            c_error = None,
            c_rows = [example_google_row]\<rparr>"
    by (simp add: collect_candidates candidates_def d thenE_def slice0_def sortBy_def)
  moreover have "example_google_row \<noteq> example_google_canonical"
    by (simp add: example_google_row_def example_google_canonical_def)
  moreover have "map fst example_google_row \<noteq> canonical_fields"
    by (simp add: example_google_row_def canonical_fields_def)
  ultimately show ?thesis using normalize_example_google by simp
qed

lemma deduplicateRecords_none: "deduplicateRecords rt clock [] = Inr []"
  by (simp add: deduplicateRecords_def readings_def thenE_def)

lemma collect_nothing:
  assumes "yieldsNothing google"
  shows "collectFromAllSources rt clock stamp apiKey google category geography maxResults
           = Inr \<lparr>c_category = category,
                  c_geography = geography,
                  c_total_found = 0,
                  c_generated_at = fst stamp,
                  c_sources_used = [],
                  c_execution_time_ms = Some (snd stamp),
                  c_errors = (if apiKey
                              then (case google of
                                      Inl error \<Rightarrow> Some [(''Google Places'', error)]
                                    | Inr results \<Rightarrow> None)
                              else None),
                  c_error = None,
                  c_rows = []\<rparr>"
proof -
  from assms have "candidates apiKey google = []"
    by (cases google) (simp_all add: candidates_def yieldsNothing_def)
  then show ?thesis
    by (simp add: collect_candidates deduplicateRecords_none thenE_def sortBy_def slice0_def)
qed

lemma quickCollect_nothing:
  assumes "yieldsNothing google" and "yieldsNothing openCorporates"
  shows "quickCollect generated_at apiKey google openCorporates category geography
           = Inr \<lparr>c_category = category,
                  c_geography = geography,
                  c_total_found = 0,
                  c_generated_at = generated_at,
                  c_sources_used = (case openCorporates of
                                      Inl error \<Rightarrow> [] | Inr results \<Rightarrow> [''OpenCorporates'']),
                  c_execution_time_ms = (case openCorporates of
                                           Inl error \<Rightarrow> None | Inr results \<Rightarrow> Some 0),
                  c_errors = None,
                  c_error = (case openCorporates of
                               Inl error \<Rightarrow> Some ''All data sources failed''
                             | Inr results \<Rightarrow> None),
                  c_rows = []\<rparr>"
  using assms
  by (cases google; cases openCorporates) (simp_all add: quickCollect_def yieldsNothing_def Let_def)

text \<open>
  Claim C9, as the code has it. When no source yields a record, every orchestrator returns
  empty rows and \<^verbatim>\<open>total_found\<close> 0 without throwing, but only two paths set
  \<^verbatim>\<open>meta.error\<close>: \<^verbatim>\<open>orchestrate\<close>, with the message of the error of the language
  model call or of the parsing of its answer, and \<^verbatim>\<open>quickCollect\<close> when
  \<^verbatim>\<open>fetchFromOpenCorporates\<close> throws. When that fetcher returns the empty list,
  \<^verbatim>\<open>quickCollect\<close> reports the source \<^verbatim>\<open>OpenCorporates\<close> and no error.
  \<^verbatim>\<open>collectFromAllSources\<close> records a thrown failure in the \<^verbatim>\<open>meta.errors\<close> list
  and never sets \<^verbatim>\<open>meta.error\<close>. \<^verbatim>\<open>orchestrate\<close> and \<^verbatim>\<open>quickCollect\<close> return a
  result for every outcome of their collaborators.
\<close>

theorem total_failure_result:
  assumes "llm = Inl e" and "yieldsNothing google" and "yieldsNothing openCorporates"
  shows "orchestrate rt clock stamp category geography llm
           = Inr \<lparr>o_meta = [(''category'', category),
                             (''geography'', geography),
                             (''total_found'', JNum (Fin 0)),
                             (''generated_at'', JStr (fst stamp)),
                             (''sources_used'', JObj []),
                             (''execution_time_ms'', JNum (Fin (snd stamp)))],
                  o_error = Some e,
                  o_rows = Some []\<rparr>
       \<and> quickCollect generated_at apiKey google openCorporates category' geography'
           = Inr \<lparr>c_category = category',
                  c_geography = geography',
                  c_total_found = 0,
                  c_generated_at = generated_at,
                  c_sources_used = (case openCorporates of
                                      Inl error \<Rightarrow> [] | Inr results \<Rightarrow> [''OpenCorporates'']),
                  c_execution_time_ms = (case openCorporates of
                                           Inl error \<Rightarrow> None | Inr results \<Rightarrow> Some 0),
                  c_errors = None,
                  c_error = (case openCorporates of
                               Inl error \<Rightarrow> Some ''All data sources failed''
                             | Inr results \<Rightarrow> None),
                  c_rows = []\<rparr>
       \<and> collectFromAllSources rt clock stamp apiKey google category' geography' maxResults
           = Inr \<lparr>c_category = category',
                  c_geography = geography',
                  c_total_found = 0,
                  c_generated_at = fst stamp,
                  c_sources_used = [],
                  c_execution_time_ms = Some (snd stamp),
                  c_errors = (if apiKey
                              then (case google of
                                      Inl error \<Rightarrow> Some [(''Google Places'', error)]
                                    | Inr results \<Rightarrow> None)
                              else None),
                  c_error = None,
                  c_rows = []\<rparr>
       \<and> (\<forall>outcome. \<exists>res. orchestrate rt clock stamp category geography outcome = Inr res)
       \<and> (\<forall>key g oc. \<exists>res. quickCollect generated_at key g oc category' geography' = Inr res)"
proof -
  have "orchestrate rt clock stamp category geography llm
           = Inr \<lparr>o_meta = [(''category'', category),
                             (''geography'', geography),
                             (''total_found'', JNum (Fin 0)),
                             (''generated_at'', JStr (fst stamp)),
                             (''sources_used'', JObj []),
                             (''execution_time_ms'', JNum (Fin (snd stamp)))],
                  o_error = Some e,
                  o_rows = Some []\<rparr>"
    by (simp add: orchestrate_def assms(1) bindE_def num_def)
  moreover have "\<exists>res. orchestrate rt clock stamp category geography outcome = Inr res"
    for outcome
    by (simp add: orchestrate_def split: sum.splits)
  moreover have "\<exists>res. quickCollect generated_at key g oc category' geography' = Inr res"
    for key g oc
    by (simp add: quickCollect_def Let_def split: sum.splits)
  ultimately show ?thesis
    using quickCollect_nothing [OF assms(2,3)] collect_nothing [OF assms(2)] by blast
qed

text \<open>
  Claim C9 at a missing API key of the language model and at fetchers that throw.
\<close>

theorem total_failure_result_witness:
  "orchestrate basic_runtime (\<lambda>i. (0, 0)) (''2025-01-01T00:00:00.000Z'', 12)
       (JStr ''Real Estate Agent'') (JStr ''Tampa, FL'')
       (Inl (Failure ''No LLM API key configured. Set OPENAI_API_KEY or ANTHROPIC_API_KEY''))
     = Inr \<lparr>o_meta = [(''category'', JStr ''Real Estate Agent''),
                       (''geography'', JStr ''Tampa, FL''),
                       (''total_found'', JNum (Fin 0)),
                       (''generated_at'', JStr ''2025-01-01T00:00:00.000Z''),
                       (''sources_used'', JObj []),
                       (''execution_time_ms'', JNum (Fin 12))],
            o_error = Some (Failure
              ''No LLM API key configured. Set OPENAI_API_KEY or ANTHROPIC_API_KEY''),
            o_rows = Some []\<rparr>
   \<and> quickCollect ''2025-01-01T00:00:00.000Z'' True (Inl (Failure ''Request failed''))
         (Inl (Failure ''Request failed'')) ''Real Estate Agent'' ''Tampa, FL''
     = Inr \<lparr>c_category = ''Real Estate Agent'',
            c_geography = ''Tampa, FL'',
            c_total_found = 0,
            c_generated_at = ''2025-01-01T00:00:00.000Z'',
            c_sources_used = [],
            c_execution_time_ms = None,
            c_errors = None,
            c_error = Some ''All data sources failed'',
            c_rows = []\<rparr>
   \<and> collectFromAllSources basic_runtime (\<lambda>i. (0, 0)) (''2025-01-01T00:00:00.000Z'', 12)
         True (Inl (Failure ''Request failed'')) ''Real Estate Agent'' ''Tampa, FL'' 100
     = Inr \<lparr>c_category = ''Real Estate Agent'',
            c_geography = ''Tampa, FL'',
            c_total_found = 0,
            c_generated_at = ''2025-01-01T00:00:00.000Z'',
            c_sources_used = [],
            c_execution_time_ms = Some 12,
            c_errors = Some [(''Google Places'', Failure ''Request failed'')],
            c_error = None,
            c_rows = []\<rparr>"
proof -
  have y: "yieldsNothing (Inl (Failure ''Request failed''))"
    by (simp add: yieldsNothing_def)
  from total_failure_result [OF refl y y,
      of basic_runtime "\<lambda>i. (0, 0)" "(''2025-01-01T00:00:00.000Z'', 12)"
         "JStr ''Real Estate Agent''" "JStr ''Tampa, FL''"
         "Failure ''No LLM API key configured. Set OPENAI_API_KEY or ANTHROPIC_API_KEY''"
         "''2025-01-01T00:00:00.000Z''" True "''Real Estate Agent''" "''Tampa, FL''" 100]
  show ?thesis by simp
qed

text \<open>
  Claim C9 as the specification words it fails in two ways: when the Google Places fetcher
  throws, \<^verbatim>\<open>collectFromAllSources\<close> fills \<^verbatim>\<open>meta.errors\<close> and leaves
  \<^verbatim>\<open>meta.error\<close> unset; when both fetchers return the empty list, as they do when their
  requests fail, \<^verbatim>\<open>quickCollect\<close> reports no error at all.
\<close>

theorem total_failure_result_counterexample:
  "collectFromAllSources basic_runtime (\<lambda>i. (0, 0)) (''2025-01-01T00:00:00.000Z'', 12)
       True (Inl (Failure ''Request failed'')) ''Real Estate Agent'' ''Tampa, FL'' 100
     = Inr \<lparr>c_category = ''Real Estate Agent'',
            c_geography = ''Tampa, FL'',
            c_total_found = 0,
            c_generated_at = ''2025-01-01T00:00:00.000Z'',
            c_sources_used = [],
            c_execution_time_ms = Some 12,
            c_errors = Some [(''Google Places'', Failure ''Request failed'')],
            c_error = None,
            c_rows = []\<rparr>
   \<and> quickCollect ''2025-01-01T00:00:00.000Z'' True (Inr []) (Inr [])
         ''Real Estate Agent'' ''Tampa, FL''
     = Inr \<lparr>c_category = ''Real Estate Agent'',
            c_geography = ''Tampa, FL'',
            c_total_found = 0,
            c_generated_at = ''2025-01-01T00:00:00.000Z'',
            c_sources_used = [''OpenCorporates''],
            c_execution_time_ms = Some 0,
            c_errors = None,
            c_error = None,
            c_rows = []\<rparr>"
  by (simp add: collect_candidates candidates_def deduplicateRecords_none thenE_def sortBy_def
      slice0_def quickCollect_def Let_def)

end
